theory Spec2Isabelle
  imports Complex_Main "HOL-Library.Char_ord" "HOL-Library.List_Lexorder" "HOL-Library.Sublist"
begin

section \<open>Pixel arrays and the numpy operations the kernels use\<close>

text \<open>
  The array kernels of \<^verbatim>\<open>pollination.py\<close> receive blocks of raster pixels from
  \<^verbatim>\<open>pygeoprocessing.raster_calculator\<close>. Every kernel works pixel by pixel, so a
  block is modelled by the list of its pixels in row-major order. Pixel values are
  modelled by \<^typ>\<open>real\<close>: the rounding of the 32-bit floats of the rasters, NaN and
  infinities are outside this model.

  On arrays of different sizes numpy raises at the first masked read or write; the
  kernels below return \<open>ShapeError\<close> there. \<open>EmptyArgs\<close> is the \<^verbatim>\<open>IndexError\<close> of
  \<^verbatim>\<open>array_list[0]\<close> on an empty argument tuple, \<open>MissingKey\<close> a \<^verbatim>\<open>KeyError\<close>.
\<close>

type_synonym array = "real list"
type_synonym mask = "bool list"

datatype np_error = ShapeError | EmptyArgs | ZeroDivisor | MissingKey string

definition INDEX_NODATA :: real where
  "INDEX_NODATA = -1"

text \<open>\<^verbatim>\<open>numpy.empty_like(a)\<close> followed by \<^verbatim>\<open>result[:] = v\<close>.\<close>

definition full_like :: "array \<Rightarrow> real \<Rightarrow> array" where
  "full_like a v = map (\<lambda>_. v) a"

text \<open>The comparisons \<^verbatim>\<open>a != v\<close>, \<^verbatim>\<open>a == v\<close>, \<^verbatim>\<open>a > v\<close>, \<^verbatim>\<open>a < v\<close> and the mask operators.\<close>

definition ne_mask :: "array \<Rightarrow> real \<Rightarrow> mask" where
  "ne_mask a v = map (\<lambda>x. x \<noteq> v) a"

definition eq_mask :: "array \<Rightarrow> real \<Rightarrow> mask" where
  "eq_mask a v = map (\<lambda>x. x = v) a"

definition gt_mask :: "array \<Rightarrow> real \<Rightarrow> mask" where
  "gt_mask a v = map (\<lambda>x. x > v) a"

definition lt_mask :: "array \<Rightarrow> real \<Rightarrow> mask" where
  "lt_mask a v = map (\<lambda>x. x < v) a"

definition and_mask :: "mask \<Rightarrow> mask \<Rightarrow> mask" where
  "and_mask m1 m2 = map2 (\<and>) m1 m2"

definition or_mask :: "mask \<Rightarrow> mask \<Rightarrow> mask" where
  "or_mask m1 m2 = map2 (\<or>) m1 m2"

definition not_mask :: "mask \<Rightarrow> mask" where
  "not_mask m = map Not m"

text \<open>The masked read \<^verbatim>\<open>a[m]\<close>: the pixels of \<open>a\<close> where \<open>m\<close> is true, in order.\<close>

definition take_mask :: "'a list \<Rightarrow> mask \<Rightarrow> 'a list" where
  "take_mask a m = map fst (filter snd (zip a m))"

text \<open>
  The masked write \<^verbatim>\<open>r[m] = vs\<close>: the values \<open>vs\<close> are stored, in order, at the
  pixels where \<open>m\<close> is true. The kernels always compute \<open>vs\<close> from reads through the
  same mask, so the values never run out (numpy would raise); the model leaves the
  remaining pixels as they are.
\<close>

fun put_mask :: "'a list \<Rightarrow> mask \<Rightarrow> 'a list \<Rightarrow> 'a list" where
  "put_mask (r # rs) (m # ms) vs =
     (if m then (case vs of [] \<Rightarrow> r # rs | v # vs' \<Rightarrow> v # put_mask rs ms vs')
      else r # put_mask rs ms vs)"
| "put_mask rs _ _ = rs"

text \<open>The masked write of a scalar, \<^verbatim>\<open>r[m] = c\<close>.\<close>

definition put_const :: "array \<Rightarrow> mask \<Rightarrow> real \<Rightarrow> array" where
  "put_const r m c = map (\<lambda>(x, b). if b then c else x) (zip r m)"

section \<open>Farm yield kernels\<close>

text \<open>\<^verbatim>\<open>_PYTOp.__call__\<close>: \<open>PYT = min(mp + FP, 1)\<close>.\<close>

definition PYTOp :: "array \<Rightarrow> array \<Rightarrow> np_error + array" where
  "PYTOp mp_array FP_array =
     (if length FP_array \<noteq> length mp_array then Inl ShapeError
      else
        let valid_mask = ne_mask mp_array INDEX_NODATA;
            result = full_like mp_array INDEX_NODATA;
            result = put_mask result valid_mask
              (map2 (+) (take_mask mp_array valid_mask) (take_mask FP_array valid_mask));
            min_mask = and_mask valid_mask (gt_mask result 1);
            result = put_const result min_mask 1
        in Inr result)"

text \<open>\<^verbatim>\<open>_PYWOp.__call__\<close>: \<open>PYW = max(0, PYT - mp)\<close>.\<close>

definition PYWOp :: "array \<Rightarrow> array \<Rightarrow> np_error + array" where
  "PYWOp mp_array PYT_array =
     (if length PYT_array \<noteq> length mp_array then Inl ShapeError
      else
        let valid_mask = ne_mask mp_array INDEX_NODATA;
            result = full_like mp_array INDEX_NODATA;
            result = put_mask result valid_mask
              (map2 (-) (take_mask PYT_array valid_mask) (take_mask mp_array valid_mask));
            max_mask = and_mask valid_mask (lt_mask result 0);
            result = put_const result max_mask 0
        in Inr result)"

section \<open>Raster times scalar, on-farm abundance, pollinator supply\<close>

text \<open>
  A numpy quotient: division by zero gives \<open>inf\<close> or \<open>nan\<close> and a warning, not an
  exception. \<open>NonFinite\<close> stands for either value, and an array that may hold one
  is a list of \<open>npfloat\<close>.
\<close>

datatype npfloat = Finite real | NonFinite

definition np_true_divide :: "real \<Rightarrow> real \<Rightarrow> npfloat" where
  "np_true_divide x divisor = (if divisor = 0 then NonFinite else Finite (x / divisor))"

text \<open>
  Elementwise division into an array of reals, for the kernel whose divisors are
  shown below to be different from zero: \<open>ZeroDivisor\<close> marks the case in which the
  result would not be an array of reals.
\<close>

definition np_divide :: "array \<Rightarrow> array \<Rightarrow> np_error + array" where
  "np_divide xs ys = (if 0 \<in> set ys then Inl ZeroDivisor else Inr (map2 (/) xs ys))"

text \<open>\<^verbatim>\<open>_MultByScalar.__call__\<close>: raster times \<^verbatim>\<open>self.scalar\<close>.\<close>

definition MultByScalar :: "real \<Rightarrow> array \<Rightarrow> np_error + array" where
  "MultByScalar scalar array =
     (let result = full_like array INDEX_NODATA;
          valid_mask = ne_mask array INDEX_NODATA;
          result = put_mask result valid_mask
            (map (\<lambda>x. x * scalar) (take_mask array valid_mask))
      in Inr result)"

text \<open>
  \<^verbatim>\<open>_OnFarmPollinatorAbundance.__call__\<close>: \<open>FP = PAT (1 - h) / (h (1 - 2 PAT) + PAT)\<close>.
  A pixel whose denominator is zero holds \<open>inf\<close> or \<open>nan\<close>; the other pixels are
  computed as usual.
\<close>

definition OnFarmPollinatorAbundance :: "array \<Rightarrow> array \<Rightarrow> np_error + npfloat list" where
  "OnFarmPollinatorAbundance h_array pat_array =
     (if length pat_array \<noteq> length h_array then Inl ShapeError
      else
        let result = map Finite (full_like h_array INDEX_NODATA);
            valid_mask = and_mask (ne_mask h_array INDEX_NODATA)
                                  (ne_mask pat_array INDEX_NODATA);
            h = take_mask h_array valid_mask;
            pat = take_mask pat_array valid_mask;
            result = put_mask result valid_mask
              (map2 np_true_divide (map2 (\<lambda>p h. p * (1 - h)) pat h)
                                   (map2 (\<lambda>h p. h * (1 - 2 * p) + p) h pat))
        in Inr result)"

text \<open>
  \<^verbatim>\<open>_PollinatorSupplyIndexOp.__call__\<close>: \<open>PS = FR * HN * sa\<close>, with
  \<^verbatim>\<open>self.species_abundance\<close> as first argument.
\<close>

definition PollinatorSupplyIndexOp :: "real \<Rightarrow> array \<Rightarrow> array \<Rightarrow> np_error + array" where
  "PollinatorSupplyIndexOp species_abundance floral_resources_array
       habitat_nesting_suitability_array =
     (if length habitat_nesting_suitability_array \<noteq> length floral_resources_array
      then Inl ShapeError
      else
        let result = full_like floral_resources_array INDEX_NODATA;
            valid_mask = ne_mask floral_resources_array INDEX_NODATA;
            result = put_mask result valid_mask
              (map2 (*) (map (\<lambda>x. species_abundance * x)
                           (take_mask floral_resources_array valid_mask))
                        (take_mask habitat_nesting_suitability_array valid_mask))
        in Inr result)"

text \<open>
  \<^verbatim>\<open>_PollinatorSupplyOp.__call__\<close>, the pollinator-abundance kernel:
  \<open>PA = foraged / FR * convolve(PS)\<close>. \<open>pa_result_mask\<close> is the source's
  \<^verbatim>\<open>result_mask\<close>, the pixels where the division is carried out.
\<close>

definition pa_result_mask :: "array \<Rightarrow> array \<Rightarrow> mask" where
  "pa_result_mask foraged_flowers_array floral_resources_array =
     (let valid_mask = ne_mask foraged_flowers_array INDEX_NODATA;
          zero_mask = eq_mask floral_resources_array 0
      in and_mask valid_mask (not_mask zero_mask))"

definition PollinatorSupplyOp :: "array \<Rightarrow> array \<Rightarrow> array \<Rightarrow> np_error + array" where
  "PollinatorSupplyOp foraged_flowers_array floral_resources_array convolve_ps_array =
     (if length floral_resources_array \<noteq> length foraged_flowers_array
         \<or> length convolve_ps_array \<noteq> length foraged_flowers_array
      then Inl ShapeError
      else
        let valid_mask = ne_mask foraged_flowers_array INDEX_NODATA;
            result = full_like foraged_flowers_array INDEX_NODATA;
            zero_mask = eq_mask floral_resources_array 0;
            result = put_const result (and_mask zero_mask valid_mask) 0;
            result_mask = pa_result_mask foraged_flowers_array floral_resources_array
        in case np_divide (take_mask foraged_flowers_array result_mask)
                          (take_mask floral_resources_array result_mask) of
             Inl e \<Rightarrow> Inl e
           | Inr ratio \<Rightarrow>
               Inr (put_mask result result_mask
                      (map2 (*) ratio (take_mask convolve_ps_array result_mask))))"

section \<open>Raster sum\<close>

text \<open>
  \<^verbatim>\<open>_SumRasters.__call__\<close>. \<open>sum_step\<close> is one pass of the loop over \<^verbatim>\<open>array_list\<close>,
  on the pair of \<^verbatim>\<open>result\<close> and \<^verbatim>\<open>valid_mask\<close>.
\<close>

definition sum_step :: "array \<times> mask \<Rightarrow> array \<Rightarrow> array \<times> mask" where
  "sum_step st array =
     (let result = fst st; valid_mask = snd st;
          local_valid_mask = ne_mask array INDEX_NODATA;
          result = put_mask result local_valid_mask
            (map2 (+) (take_mask result local_valid_mask)
                      (take_mask array local_valid_mask));
          valid_mask = or_mask valid_mask local_valid_mask
      in (result, valid_mask))"

definition SumRasters :: "array list \<Rightarrow> np_error + array" where
  "SumRasters array_list =
     (case array_list of
        [] \<Rightarrow> Inl EmptyArgs
      | a0 # _ \<Rightarrow>
          if \<exists>a \<in> set array_list. length a \<noteq> length a0 then Inl ShapeError
          else
            let valid_mask = map (\<lambda>_. False) a0;
                result = full_like a0 0;
                st = foldl sum_step (result, valid_mask) array_list;
                result = put_const (fst st) (not_mask (snd st)) INDEX_NODATA
            in Inr result)"

section \<open>Habitat nesting index\<close>

text \<open>
  A Python \<^verbatim>\<open>dict\<close> is an association list; a lookup finds the first binding of a
  key, \<open>dict_keys\<close> lists every key once and \<open>sorted_keys\<close> is \<^verbatim>\<open>sorted(d)\<close>. Strings
  are ordered as Python orders byte strings.
\<close>

type_synonym ('k, 'v) dict = "('k \<times> 'v) list"

definition dict_keys :: "('k, 'v) dict \<Rightarrow> 'k list" where
  "dict_keys d = remdups (map fst d)"

definition sorted_keys :: "('k::linorder, 'v) dict \<Rightarrow> 'k list" where
  "sorted_keys d = sort (dict_keys d)"

definition dict_set :: "('k, 'v) dict \<Rightarrow> 'k \<Rightarrow> 'v \<Rightarrow> ('k, 'v) dict" where
  "dict_set d k v = (if k \<in> fst ` set d
                     then map (\<lambda>p. if fst p = k then (k, v) else p) d
                     else d @ [(k, v)])"

text \<open>
  \<^verbatim>\<open>_CalculateHabitatNestingIndex.__init__\<close>: the raster paths and the species'
  suitability scalars, both listed in the sorted order of the substrate names. The
  \<^verbatim>\<open>reshape\<close> to a column fails unless both maps have the same number of entries.
\<close>

record habitat_nesting_closure =
  substrate_path_list :: "string list"
  species_substrate_suitability_index_array :: "real list"
  target_habitat_nesting_index_path :: string

definition CalculateHabitatNestingIndex_init ::
  "(string, string) dict \<Rightarrow> (string, real) dict \<Rightarrow> string
     \<Rightarrow> np_error + habitat_nesting_closure" where
  "CalculateHabitatNestingIndex_init substrate_path_map species_substrate_index_map
       target_path =
     (let ids = sorted_keys substrate_path_map in
      case filter (\<lambda>substrate_id. map_of species_substrate_index_map substrate_id = None) ids of
        missing # _ \<Rightarrow> Inl (MissingKey missing)
      | [] \<Rightarrow>
          if length ids \<noteq> length (dict_keys species_substrate_index_map) then Inl ShapeError
          else Inr \<lparr> substrate_path_list =
                       map (\<lambda>substrate_id. the (map_of substrate_path_map substrate_id)) ids,
                     species_substrate_suitability_index_array =
                       map (\<lambda>substrate_id. the (map_of species_substrate_index_map substrate_id)) ids,
                     target_habitat_nesting_index_path = target_path \<rparr>)"

text \<open>
  \<^verbatim>\<open>max_op\<close> of \<^verbatim>\<open>_CalculateHabitatNestingIndex.__call__\<close>: the stacked substrate
  arrays, each row scaled by its scalar of the suitability column, reduced by
  \<^verbatim>\<open>numpy.max\<close> along the substrate axis; then no-data is copied from the first
  substrate array. The constructor makes the column as long as the list of rasters;
  for any other length the model returns \<open>ShapeError\<close>.
\<close>

definition max_op :: "real list \<Rightarrow> array list \<Rightarrow> np_error + array" where
  "max_op suitability substrate_index_arrays =
     (case substrate_index_arrays of
        [] \<Rightarrow> Inl EmptyArgs
      | a0 # _ \<Rightarrow>
          if (\<exists>a \<in> set substrate_index_arrays. length a \<noteq> length a0)
             \<or> length suitability \<noteq> length substrate_index_arrays
          then Inl ShapeError
          else
            let scaled = map2 (\<lambda>a s. map (\<lambda>x. x * s) a) substrate_index_arrays suitability;
                result = foldl (map2 max) (hd scaled) (tl scaled);
                result = put_const result (eq_mask a0 INDEX_NODATA) INDEX_NODATA
            in Inr result)"

section \<open>Header patterns\<close>

text \<open>
  The regular expressions of the module are literals or have the shape
  \<^verbatim>\<open>prefix([^_]+)suffix\<close>. \<open>re_match\<close> is \<^verbatim>\<open>re.match\<close>: a match at the start of the
  string, returning \<^verbatim>\<open>group(1)\<close> and \<^verbatim>\<open>group()\<close>. The group is greedy: the longest
  run of characters other than the underscore after which the suffix follows, then
  shorter ones. \<open>re_search\<close> says whether \<^verbatim>\<open>re.findall\<close> finds anything.
\<close>

datatype pattern = Literal string | Capture string string

fun strip_prefix :: "string \<Rightarrow> string \<Rightarrow> string option" where
  "strip_prefix [] s = Some s"
| "strip_prefix (p # ps) [] = None"
| "strip_prefix (p # ps) (c # cs) = (if p = c then strip_prefix ps cs else None)"

definition re_match :: "pattern \<Rightarrow> string \<Rightarrow> (string \<times> string) option" where
  "re_match pat s =
     (case pat of
        Literal l \<Rightarrow> (if prefix l s then Some ([], l) else None)
      | Capture p q \<Rightarrow>
          (case strip_prefix p s of
             None \<Rightarrow> None
           | Some rest \<Rightarrow>
               let run = takeWhile (\<lambda>c. c \<noteq> CHR ''_'') rest in
               (case filter (\<lambda>k. prefix q (drop k rest)) (rev [1..<Suc (length run)]) of
                  [] \<Rightarrow> None
                | k # _ \<Rightarrow> Some (take k rest, p @ take k rest @ q))))"

fun tails :: "string \<Rightarrow> string list" where
  "tails [] = [[]]"
| "tails (c # cs) = (c # cs) # tails cs"

definition re_search :: "pattern \<Rightarrow> string \<Rightarrow> bool" where
  "re_search pat s = list_ex (\<lambda>t. re_match pat t \<noteq> None) (tails s)"

fun join :: "string \<Rightarrow> string list \<Rightarrow> string" where
  "join sep [] = []"
| "join sep [x] = x"
| "join sep (x # y # ys) = x @ sep @ join sep (y # ys)"

definition NESTING_SUBSTRATE_PATTERN :: pattern where
  "NESTING_SUBSTRATE_PATTERN = Capture ''nesting_'' ''_availability_index''"

definition FLORAL_RESOURCES_AVAILABLE_PATTERN :: pattern where
  "FLORAL_RESOURCES_AVAILABLE_PATTERN = Capture ''floral_resources_'' ''_index''"

definition EXPECTED_BIOPHYSICAL_HEADERS :: "pattern list" where
  "EXPECTED_BIOPHYSICAL_HEADERS =
     [Literal ''lucode'', NESTING_SUBSTRATE_PATTERN, FLORAL_RESOURCES_AVAILABLE_PATTERN]"

definition NESTING_SUITABILITY_PATTERN :: pattern where
  "NESTING_SUITABILITY_PATTERN = Capture ''nesting_suitability_'' ''_index''"

definition FORAGING_ACTIVITY_PATTERN :: "string \<Rightarrow> string" where
  "FORAGING_ACTIVITY_PATTERN season = ''foraging_activity_'' @ season @ ''_index''"

definition FORAGING_ACTIVITY_RE_PATTERN :: pattern where
  "FORAGING_ACTIVITY_RE_PATTERN = Capture ''foraging_activity_'' ''_index''"

definition RELATIVE_SPECIES_ABUNDANCE_FIELD :: string where
  "RELATIVE_SPECIES_ABUNDANCE_FIELD = ''relative_abundance''"

definition ALPHA_HEADER :: string where
  "ALPHA_HEADER = ''alpha''"

definition EXPECTED_GUILD_HEADERS :: "pattern list" where
  "EXPECTED_GUILD_HEADERS =
     [Literal ''species'', NESTING_SUITABILITY_PATTERN, FORAGING_ACTIVITY_RE_PATTERN,
      Literal ALPHA_HEADER, Literal RELATIVE_SPECIES_ABUNDANCE_FIELD]"

definition FARM_FLORAL_RESOURCES_PATTERN :: pattern where
  "FARM_FLORAL_RESOURCES_PATTERN = Capture ''fr_'' []"

definition FARM_NESTING_SUBSTRATE_RE_PATTERN :: pattern where
  "FARM_NESTING_SUBSTRATE_RE_PATTERN = Capture ''n_'' []"

definition FARM_SEASON_FIELD :: string where
  "FARM_SEASON_FIELD = ''season''"

definition EXPECTED_FARM_HEADERS :: "pattern list" where
  "EXPECTED_FARM_HEADERS =
     [Literal FARM_SEASON_FIELD, Literal ''crop_type'', Literal ''half_sat'',
      Literal ''p_managed'', FARM_FLORAL_RESOURCES_PATTERN,
      FARM_NESTING_SUBSTRATE_RE_PATTERN, Literal ''p_dep'']"

section \<open>Scenario variables\<close>

text \<open>
  The tables are read by \<^verbatim>\<open>utils.build_lookup_from_csv\<close> and \<^verbatim>\<open>ogr\<close>, which are not
  part of the module; \<open>inputs\<close> holds what they return. A table is a dictionary from
  the key column to a row, a row a dictionary from header to cell, and a cell is a
  number where the text could be cast and the text otherwise. \<open>farm\<close> is \<open>None\<close> when
  \<^verbatim>\<open>farm_vector_path\<close> is absent from \<^verbatim>\<open>args\<close> or empty. Species names are strings.
\<close>

datatype cell = Num real | Str string

type_synonym row = "(string, cell) dict"

record farm_layer =
  geom_is_polygon :: bool
  farm_headers :: "string list"
  farm_feature_seasons :: "string list"

record inputs =
  guild_table_path :: string
  guild_table :: "(string, row) dict"
  landcover_biophysical_table_path :: string
  landcover_biophysical_table :: "(real, row) dict"
  farm_vector_path :: string
  farm :: "farm_layer option"

text \<open>
  Every \<^verbatim>\<open>raise\<close> of \<^verbatim>\<open>_parse_scenario_variables\<close> and every exception of a lookup,
  cast or division in it and in \<^verbatim>\<open>execute\<close>. \<open>MissingHeader path pat\<close> is the \<^verbatim>\<open>ValueError\<close> of the expected-header
  loops, \<open>IncompleteEntry name found farm_given\<close> the one of the cross-table check: it
  carries the season or substrate name and the dictionary of the tables where the
  name was found, as the message does.
\<close>

datatype config_error =
    StopIteration
  | MissingHeader string pattern
  | FarmNotPolygon
  | IncompleteEntry string "(string, string) dict" bool
  | UnknownFarmSeasons "string list"
  | KeyError string
  | KeyErrorLucode int
  | TypeError
  | NotAFloat string
  | ZeroDivisionError

record scenario_variables =
  season_list :: "string list"
  substrate_list :: "string list"
  species_list :: "string list"
  alpha_value :: "(string, real) dict"
  species_abundance :: "(string, npfloat) dict"
  species_foraging_activity :: "(string \<times> string, npfloat) dict"
  landcover_substrate_index :: "(string, (int, cell) dict) dict"
  landcover_floral_resources :: "(string, (int, cell) dict) dict"
  species_substrate_index :: "(string, (string, cell) dict) dict"
  foraging_activity_index :: "(string \<times> string, cell) dict"

text \<open>Sequencing of steps that may raise, and loops that stop at the first exception.\<close>

definition bind_err :: "'e + 'a \<Rightarrow> ('a \<Rightarrow> 'e + 'b) \<Rightarrow> 'e + 'b" where
  "bind_err m f = (case m of Inl e \<Rightarrow> Inl e | Inr x \<Rightarrow> f x)"

fun map_err :: "('a \<Rightarrow> 'e + 'b) \<Rightarrow> 'a list \<Rightarrow> 'e + 'b list" where
  "map_err f [] = Inr []"
| "map_err f (x # xs) =
     (case f x of Inl e \<Rightarrow> Inl e
      | Inr y \<Rightarrow> (case map_err f xs of Inl e \<Rightarrow> Inl e | Inr ys \<Rightarrow> Inr (y # ys)))"

fun fold_err :: "('a \<Rightarrow> 's \<Rightarrow> 'e + 's) \<Rightarrow> 'a list \<Rightarrow> 's \<Rightarrow> 'e + 's" where
  "fold_err f [] st = Inr st"
| "fold_err f (x # xs) st = (case f x st of Inl e \<Rightarrow> Inl e | Inr st' \<Rightarrow> fold_err f xs st')"

definition lookup_cell :: "row \<Rightarrow> string \<Rightarrow> config_error + cell" where
  "lookup_cell r header = (case map_of r header of None \<Rightarrow> Inl (KeyError header)
                           | Some c \<Rightarrow> Inr c)"

definition lookup_row :: "(string, row) dict \<Rightarrow> string \<Rightarrow> config_error + row" where
  "lookup_row table k = (case map_of table k of None \<Rightarrow> Inl (KeyError k) | Some r \<Rightarrow> Inr r)"

text \<open>A cell used as a number in \<^verbatim>\<open>numpy.sum\<close> or a division, and \<^verbatim>\<open>float(cell)\<close>.\<close>

definition number_of :: "cell \<Rightarrow> config_error + real" where
  "number_of c = (case c of Num x \<Rightarrow> Inr x | Str _ \<Rightarrow> Inl TypeError)"

definition py_float :: "cell \<Rightarrow> config_error + real" where
  "py_float c = (case c of Num x \<Rightarrow> Inr x | Str t \<Rightarrow> Inl (NotAFloat t))"

text \<open>\<^verbatim>\<open>int(x)\<close> truncates towards zero.\<close>

definition py_int :: "real \<Rightarrow> int" where
  "py_int x = (if 0 \<le> x then \<lfloor>x\<rfloor> else \<lceil>x\<rceil>)"

text \<open>
  \<^verbatim>\<open>d[name][table] = header\<close> on a \<^verbatim>\<open>defaultdict(dict)\<close>, and the expected-header
  loops, which raise at the first pattern that nothing matches.
\<close>

definition set_entry :: "('a, ('b, 'c) dict) dict \<Rightarrow> 'a \<Rightarrow> 'b \<Rightarrow> 'c \<Rightarrow> ('a, ('b, 'c) dict) dict" where
  "set_entry d name k v =
     dict_set d name (dict_set (case map_of d name of None \<Rightarrow> [] | Some inner \<Rightarrow> inner) k v)"

definition check_expected :: "string \<Rightarrow> pattern list \<Rightarrow> string list \<Rightarrow> config_error option" where
  "check_expected path expected headers =
     (case filter (\<lambda>header. \<not> re_search header (join '' '' headers)) expected of
        [] \<Rightarrow> None
      | header # _ \<Rightarrow> Some (MissingHeader path header))"

type_synonym header_map = "(string, (string, string) dict) dict"

text \<open>
  One pass of a header loop: the header is matched against the season pattern and
  against the substrate pattern of the table, and each match is recorded under the
  table's name.
\<close>

definition header_step ::
  "string \<Rightarrow> pattern \<Rightarrow> pattern \<Rightarrow> string \<Rightarrow> header_map \<times> header_map
     \<Rightarrow> header_map \<times> header_map" where
  "header_step table season_pattern substrate_pattern header maps =
     (let season_to_header = fst maps; substrate_to_header = snd maps;
          season_to_header =
            (case re_match season_pattern header of
               None \<Rightarrow> season_to_header
             | Some (season, matched) \<Rightarrow> set_entry season_to_header season table matched);
          substrate_to_header =
            (case re_match substrate_pattern header of
               None \<Rightarrow> substrate_to_header
             | Some (substrate, matched) \<Rightarrow>
                 set_entry substrate_to_header substrate table matched)
      in (season_to_header, substrate_to_header))"

definition guild_headers_of :: "inputs \<Rightarrow> config_error + string list" where
  "guild_headers_of inp =
     (case guild_table inp of [] \<Rightarrow> Inl StopIteration
      | (_, first_row) # _ \<Rightarrow> Inr (dict_keys first_row))"

definition biophysical_headers_of :: "inputs \<Rightarrow> config_error + string list" where
  "biophysical_headers_of inp =
     (case landcover_biophysical_table inp of [] \<Rightarrow> Inl StopIteration
      | (_, first_row) # _ \<Rightarrow> Inr (dict_keys first_row))"

text \<open>
  The first half of \<^verbatim>\<open>_parse_scenario_variables\<close>, up to the loop over the
  biophysical headers: the two dictionaries \<^verbatim>\<open>season_to_header\<close> and
  \<^verbatim>\<open>substrate_to_header\<close>.
\<close>

definition header_maps :: "inputs \<Rightarrow> config_error + header_map \<times> header_map" where
  "header_maps inp =
     bind_err (guild_headers_of inp) (\<lambda>guild_headers.
     case check_expected (guild_table_path inp) EXPECTED_GUILD_HEADERS guild_headers of
       Some e \<Rightarrow> Inl e
     | None \<Rightarrow>
     bind_err (biophysical_headers_of inp) (\<lambda>biophysical_table_headers.
     case check_expected (landcover_biophysical_table_path inp) EXPECTED_BIOPHYSICAL_HEADERS
            biophysical_table_headers of
       Some e \<Rightarrow> Inl e
     | None \<Rightarrow>
     let maps = fold (header_step ''guild'' FORAGING_ACTIVITY_RE_PATTERN
                        NESTING_SUITABILITY_PATTERN) guild_headers ([], [])
     in bind_err
          (case farm inp of
             None \<Rightarrow> Inr maps
           | Some farm_layer \<Rightarrow>
               if \<not> geom_is_polygon farm_layer then Inl FarmNotPolygon
               else (case check_expected (farm_vector_path inp) EXPECTED_FARM_HEADERS
                            (farm_headers farm_layer) of
                       Some e \<Rightarrow> Inl e
                     | None \<Rightarrow>
                         Inr (fold (header_step ''farm'' FARM_FLORAL_RESOURCES_PATTERN
                                      FARM_NESTING_SUBSTRATE_RE_PATTERN)
                                (farm_headers farm_layer) maps)))
          (\<lambda>maps.
             Inr (fold (header_step ''biophysical'' FLORAL_RESOURCES_AVAILABLE_PATTERN
                          NESTING_SUBSTRATE_PATTERN) biophysical_table_headers maps))))"

text \<open>
  The cross-table check over \<^verbatim>\<open>season_to_header\<close> chained with
  \<^verbatim>\<open>substrate_to_header\<close>: with a farm layer every name needs three entries, without
  one two. The first name that falls short is reported; a Python 2 dictionary
  iterates in no fixed order, and the association list stands for one such order.
\<close>

definition check_entries :: "bool \<Rightarrow> header_map \<Rightarrow> config_error option" where
  "check_entries farm_given chained =
     (case filter (\<lambda>(table_type, lookup_table).
                     length (dict_keys lookup_table) \<noteq> (if farm_given then 3 else 2)) chained of
        [] \<Rightarrow> None
      | (table_type, lookup_table) # _ \<Rightarrow>
          Some (IncompleteEntry table_type lookup_table farm_given))"

definition check_farm_seasons :: "inputs \<Rightarrow> header_map \<Rightarrow> config_error option" where
  "check_farm_seasons inp season_to_header =
     (case farm inp of
        None \<Rightarrow> None
      | Some farm_layer \<Rightarrow>
          let farm_season_set = remdups (farm_feature_seasons farm_layer);
              unknown = filter (\<lambda>season. season \<notin> set (dict_keys season_to_header))
                          farm_season_set
          in if length unknown > 0 then Some (UnknownFarmSeasons unknown) else None)"

text \<open>The second half of \<^verbatim>\<open>_parse_scenario_variables\<close>: the result dictionary.\<close>

definition lookup_header :: "header_map \<Rightarrow> string \<Rightarrow> string \<Rightarrow> config_error + string" where
  "lookup_header name_to_header name table =
     (case map_of name_to_header name of
        None \<Rightarrow> Inl (KeyError name)
      | Some lookup_table \<Rightarrow>
          (case map_of lookup_table table of None \<Rightarrow> Inl (KeyError table)
           | Some header \<Rightarrow> Inr header))"

definition alpha_values :: "(string, row) dict \<Rightarrow> string list \<Rightarrow> config_error + (string, real) dict" where
  "alpha_values guild species =
     map_err (\<lambda>sp. bind_err (lookup_row guild sp) (\<lambda>r.
                    bind_err (lookup_cell r ALPHA_HEADER) (\<lambda>c.
                    bind_err (py_float c) (\<lambda>x. Inr (sp, x))))) species"

text \<open>
  The raw relative abundances in the order of \<open>species\<close>: the list handed to
  \<^verbatim>\<open>numpy.sum\<close>. The lookups come first, then the sum, which needs numbers.
\<close>

definition relative_abundances :: "(string, row) dict \<Rightarrow> string list \<Rightarrow> config_error + real list" where
  "relative_abundances guild species =
     bind_err (map_err (\<lambda>sp. bind_err (lookup_row guild sp) (\<lambda>r.
                           lookup_cell r RELATIVE_SPECIES_ABUNDANCE_FIELD)) species)
       (map_err number_of)"

definition species_abundances ::
  "(string, row) dict \<Rightarrow> string list \<Rightarrow> config_error + (string, npfloat) dict" where
  "species_abundances guild species =
     bind_err (relative_abundances guild species) (\<lambda>values.
       let total_relative_abundance = sum_list values
       in Inr (map2 (\<lambda>sp v. (sp, np_true_divide v total_relative_abundance)) species values))"

text \<open>The raw foraging activities of one species in the order of \<open>seasons\<close>.\<close>

definition foraging_activities ::
  "(string, row) dict \<Rightarrow> string list \<Rightarrow> string \<Rightarrow> config_error + real list" where
  "foraging_activities guild seasons sp =
     bind_err (lookup_row guild sp) (\<lambda>r.
     bind_err (map_err (\<lambda>season. lookup_cell r (FORAGING_ACTIVITY_PATTERN season)) seasons)
       (map_err number_of))"

definition species_foraging_activities ::
  "(string, row) dict \<Rightarrow> string list \<Rightarrow> string list
     \<Rightarrow> config_error + (string \<times> string, npfloat) dict" where
  "species_foraging_activities guild seasons species =
     bind_err
       (map_err (\<lambda>sp. bind_err (foraging_activities guild seasons sp) (\<lambda>values.
                   let total_activity = sum_list values
                   in Inr (map2 (\<lambda>season v. ((sp, season), np_true_divide v total_activity))
                             seasons values))) species)
       (\<lambda>per_species. Inr (concat per_species))"

definition landcover_index ::
  "(real, row) dict \<Rightarrow> header_map \<Rightarrow> string list
     \<Rightarrow> config_error + (string, (int, cell) dict) dict" where
  "landcover_index table name_to_header names =
     fold_err (\<lambda>raw_landcover_id result.
        let landcover_id = py_int raw_landcover_id in
        fold_err (\<lambda>name result.
           bind_err (lookup_header name_to_header name ''biophysical'') (\<lambda>header.
           bind_err (case map_of table (real_of_int landcover_id) of
                       None \<Rightarrow> Inl (KeyErrorLucode landcover_id) | Some r \<Rightarrow> Inr r) (\<lambda>r.
           bind_err (lookup_cell r header) (\<lambda>c.
             Inr (set_entry result name landcover_id c))))) names result)
       (dict_keys table) []"

definition species_substrate_indexes ::
  "(string, row) dict \<Rightarrow> header_map \<Rightarrow> string list \<Rightarrow> string list
     \<Rightarrow> config_error + (string, (string, cell) dict) dict" where
  "species_substrate_indexes guild substrate_to_header species substrates =
     fold_err (\<lambda>sp result.
        fold_err (\<lambda>substrate result.
           bind_err (lookup_header substrate_to_header substrate ''guild'') (\<lambda>header.
           bind_err (lookup_row guild sp) (\<lambda>r.
           bind_err (lookup_cell r header) (\<lambda>c.
             Inr (set_entry result sp substrate c))))) substrates result)
       species []"

definition foraging_activity_indexes ::
  "(string, row) dict \<Rightarrow> header_map \<Rightarrow> string list \<Rightarrow> string list
     \<Rightarrow> config_error + (string \<times> string, cell) dict" where
  "foraging_activity_indexes guild season_to_header species seasons =
     bind_err
       (map_err (\<lambda>sp.
          map_err (\<lambda>season.
             bind_err (lookup_header season_to_header season ''guild'') (\<lambda>header.
             bind_err (lookup_row guild sp) (\<lambda>r.
             bind_err (lookup_cell r header) (\<lambda>c. Inr ((sp, season), c))))) seasons) species)
       (\<lambda>per_species. Inr (concat per_species))"

definition build_result :: "inputs \<Rightarrow> header_map \<Rightarrow> header_map \<Rightarrow> config_error + scenario_variables" where
  "build_result inp season_to_header substrate_to_header =
     (let seasons = sorted_keys season_to_header;
          substrates = sorted_keys substrate_to_header;
          species = sorted_keys (guild_table inp)
      in
      bind_err (alpha_values (guild_table inp) species) (\<lambda>alpha.
      bind_err (species_abundances (guild_table inp) species) (\<lambda>abundance.
      bind_err (species_foraging_activities (guild_table inp) seasons species) (\<lambda>activity.
      bind_err (landcover_index (landcover_biophysical_table inp) substrate_to_header
                  substrates) (\<lambda>substrate_index.
      bind_err (landcover_index (landcover_biophysical_table inp) season_to_header
                  seasons) (\<lambda>floral_resources.
      bind_err (species_substrate_indexes (guild_table inp) substrate_to_header species
                  substrates) (\<lambda>species_substrate.
      bind_err (foraging_activity_indexes (guild_table inp) season_to_header species
                  seasons) (\<lambda>foraging_index.
        Inr \<lparr> season_list = seasons,
              substrate_list = substrates,
              species_list = species,
              alpha_value = alpha,
              species_abundance = abundance,
              species_foraging_activity = activity,
              landcover_substrate_index = substrate_index,
              landcover_floral_resources = floral_resources,
              species_substrate_index = species_substrate,
              foraging_activity_index = foraging_index \<rparr>))))))))"

definition parse_scenario_variables :: "inputs \<Rightarrow> config_error + scenario_variables" where
  "parse_scenario_variables inp =
     bind_err (header_maps inp) (\<lambda>maps.
       let season_to_header = fst maps; substrate_to_header = snd maps in
       case check_entries (farm inp \<noteq> None) (season_to_header @ substrate_to_header) of
         Some e \<Rightarrow> Inl e
       | None \<Rightarrow>
           (case check_farm_seasons inp season_to_header of
              Some e \<Rightarrow> Inl e
            | None \<Rightarrow> build_result inp season_to_header substrate_to_header))"

section \<open>The pipeline builder\<close>

text \<open>
  \<^verbatim>\<open>os.path.join\<close> of two POSIX paths, and the conversion \<^verbatim>\<open>%f\<close> of a double: six
  decimals of its exact value, rounded to nearest with ties to even.
\<close>

definition os_path_join :: "string \<Rightarrow> string \<Rightarrow> string" where
  "os_path_join a b =
     (if b \<noteq> [] \<and> hd b = CHR ''/'' then b
      else if a = [] \<or> last a = CHR ''/'' then a @ b
      else a @ ''/'' @ b)"

fun dec_digits :: "nat \<Rightarrow> string" where
  "dec_digits n = (if n < 10 then [''0123456789'' ! n]
                   else dec_digits (n div 10) @ [''0123456789'' ! (n mod 10)])"

declare dec_digits.simps [simp del]

definition round_half_even :: "real \<Rightarrow> int" where
  "round_half_even y =
     (let f = \<lfloor>y\<rfloor>; d = y - of_int f
      in if d < 1/2 then f else if 1/2 < d then f + 1 else if even f then f else f + 1)"

definition fmt_f :: "real \<Rightarrow> string" where
  "fmt_f x =
     (let n = nat (round_half_even (\<bar>x\<bar> * 1000000));
          fraction = dec_digits (n mod 1000000)
      in (if x < 0 then ''-'' else []) @ dec_digits (n div 1000000) @ ''.''
         @ replicate (6 - length fraction) (CHR ''0'') @ fraction)"

text \<open>
  The quotient of two Python floats is the double nearest to the exact quotient, ties
  to even. \<open>scale_up\<close> and \<open>scale_down\<close> bring a positive real into the range of a
  53-bit significand, doubling or halving it and counting the binary exponent. The
  exponent range of the model is unbounded: where Python returns \<open>inf\<close> or a
  subnormal, the model still rounds to 53 bits.
\<close>

function scale_up :: "real \<Rightarrow> int \<Rightarrow> real \<times> int" where
  "scale_up x e = (if 0 < x \<and> x < 2 ^ 52 then scale_up (2 * x) (e - 1) else (x, e))"
  by pat_completeness auto
termination
proof (relation "measure (\<lambda>(x, e). nat \<lceil>52 - log 2 x\<rceil>)")
  show "wf (measure (\<lambda>(x, e). nat \<lceil>52 - log 2 x\<rceil>))" by simp
next
  fix x :: real and e :: int
  assume a: "0 < x \<and> x < 2 ^ 52"
  then have "log 2 x < 52" by (simp add: log_less_iff)
  then have pos: "0 < 52 - log 2 x" by simp
  have "log 2 (2 * x) = 1 + log 2 x" using a by (simp add: log_mult)
  then have "52 - log 2 (2 * x) = (52 - log 2 x) - 1" by simp
  then have "\<lceil>52 - log 2 (2 * x)\<rceil> = \<lceil>52 - log 2 x\<rceil> - 1"
    by (simp only: ceiling_diff_one)
  moreover have "1 \<le> \<lceil>52 - log 2 x\<rceil>" using pos by linarith
  ultimately show "((2 * x, e - 1), (x, e)) \<in> measure (\<lambda>(x, e). nat \<lceil>52 - log 2 x\<rceil>)"
    by simp
qed

function scale_down :: "real \<Rightarrow> int \<Rightarrow> real \<times> int" where
  "scale_down x e = (if 2 ^ 53 \<le> x then scale_down (x / 2) (e + 1) else (x, e))"
  by pat_completeness auto
termination
proof (relation "measure (\<lambda>(x, e). nat \<lceil>log 2 x\<rceil>)")
  show "wf (measure (\<lambda>(x, e). nat \<lceil>log 2 x\<rceil>))" by simp
next
  fix x :: real and e :: int
  assume a: "2 ^ 53 \<le> x"
  then have x: "0 < x" by (smt (verit) zero_less_power)
  have big: "53 \<le> log 2 x" using a x by (simp add: le_log_iff)
  have "log 2 (x / 2) = log 2 x - 1" using x by (simp add: log_divide)
  then have "\<lceil>log 2 (x / 2)\<rceil> = \<lceil>log 2 x\<rceil> - 1"
    by (simp only: ceiling_diff_one)
  moreover have "1 \<le> \<lceil>log 2 x\<rceil>" using big by linarith
  ultimately show "((x / 2, e + 1), (x, e)) \<in> measure (\<lambda>(x, e). nat \<lceil>log 2 x\<rceil>)"
    by simp
qed

declare scale_up.simps [simp del] scale_down.simps [simp del]

definition to_double :: "real \<Rightarrow> real" where
  "to_double x =
     (if x = 0 then 0
      else let up = scale_up \<bar>x\<bar> 0;
               scaled = scale_down (fst up) (snd up);
               e = snd scaled
           in sgn x * of_int (round_half_even (fst scaled))
                * (if 0 \<le> e then 2 ^ nat e else 1 / 2 ^ nat (- e)))"

text \<open>
  What \<^verbatim>\<open>execute\<close> needs besides the tables: the workspace, the suffix returned by
  \<^verbatim>\<open>utils.make_suffix_string\<close> and the pixel size of the land-cover raster, which come
  from outside the module.
\<close>

record exec_args =
  workspace_dir :: string
  file_suffix :: string
  mean_pixel_size :: real
  tables :: inputs

text \<open>
  A registered task is recorded by the function it runs and its
  \<^verbatim>\<open>target_path_list\<close>; the arguments and the dependency lists are left out.
\<close>

record task =
  func :: string
  target_path_list :: "string list"

definition add_task :: "string \<Rightarrow> string \<Rightarrow> task" where
  "add_task f target = \<lparr> func = f, target_path_list = [target] \<rparr>"

definition intermediate_output_dir :: "exec_args \<Rightarrow> string" where
  "intermediate_output_dir a = os_path_join (workspace_dir a) ''intermediate_outputs''"

definition output_dir :: "exec_args \<Rightarrow> string" where
  "output_dir a = workspace_dir a"

text \<open>
  The convolution kernel of a species: \<^verbatim>\<open>alpha\<close> is the species' flight distance in
  pixels, and the raster is named \<^verbatim>\<open>'kernel_%f%s.tif' % (alpha, file_suffix)\<close>.
\<close>

definition species_alpha :: "exec_args \<Rightarrow> scenario_variables \<Rightarrow> string \<Rightarrow> config_error + real" where
  "species_alpha a sv species =
     (case map_of (alpha_value sv) species of
        None \<Rightarrow> Inl (KeyError species)
      | Some alpha_s \<Rightarrow>
          if mean_pixel_size a = 0 then Inl ZeroDivisionError
          else Inr (to_double (alpha_s / mean_pixel_size a)))"

definition kernel_path :: "exec_args \<Rightarrow> scenario_variables \<Rightarrow> string \<Rightarrow> config_error + string" where
  "kernel_path a sv species =
     bind_err (species_alpha a sv species) (\<lambda>alpha.
       Inr (os_path_join (intermediate_output_dir a)
              (''kernel_'' @ fmt_f alpha @ file_suffix a @ ''.tif'')))"

definition foraged_flowers_index_path :: "exec_args \<Rightarrow> string \<Rightarrow> string \<Rightarrow> string" where
  "foraged_flowers_index_path a species season =
     os_path_join (intermediate_output_dir a)
       (''foraged_flowers_index_'' @ species @ ''_'' @ season @ file_suffix a @ ''.tif'')"

text \<open>
  The tasks registered before the loop that builds the kernels: the reprojection of
  the farm vector, the substrate rasters, the habitat nesting indexes, the floral
  abundance rasters and the foraged-flowers rasters.
\<close>

definition early_tasks :: "exec_args \<Rightarrow> scenario_variables \<Rightarrow> task list" where
  "early_tasks a sv =
     (let dir = intermediate_output_dir a; suffix = file_suffix a;
          farm_given = (farm (tables a) \<noteq> None)
      in
      (if farm_given
       then [add_task ''pygeoprocessing.reproject_vector''
               (os_path_join dir (''reprojected_farm_vector'' @ suffix @ ''.shp''))]
       else [])
      @ map (\<lambda>substrate. add_task ''pygeoprocessing.reclassify_raster''
               (os_path_join dir (''nesting_substrate_index_'' @ substrate @ suffix @ ''.tif'')))
          (substrate_list sv)
      @ (if farm_given
         then map (\<lambda>substrate. add_task ''_rasterize_vector_onto_base''
                     (os_path_join dir
                        (''farm_nesting_substrate_index_'' @ substrate @ suffix @ ''.tif'')))
                (substrate_list sv)
         else [])
      @ map (\<lambda>species. add_task ''_CalculateHabitatNestingIndex''
               (os_path_join dir (''habitat_nesting_index_'' @ species @ suffix @ ''.tif'')))
          (species_list sv)
      @ concat (map (\<lambda>season.
            add_task ''pygeoprocessing.reclassify_raster''
              (os_path_join dir
                 (''relative_floral_abundance_index_'' @ season @ suffix @ ''.tif''))
            # (if farm_given
               then [add_task ''_rasterize_vector_onto_base''
                       (os_path_join dir
                          (''farm_relative_floral_abundance_index_'' @ season @ suffix
                           @ ''.tif''))]
               else []))
          (season_list sv))
      @ concat (map (\<lambda>species.
            map (\<lambda>season. add_task ''_MultByScalar''
                   (foraged_flowers_index_path a species season))
              (season_list sv))
          (species_list sv)))"

text \<open>
  One pass of the loop over the species that builds kernels and convolutions. The
  first task is registered before the flight distance is divided by the pixel size;
  the pass returns the tasks it registered and the exception, if any.
\<close>

definition species_tasks ::
  "exec_args \<Rightarrow> scenario_variables \<Rightarrow> string \<Rightarrow> task list \<times> config_error option" where
  "species_tasks a sv species =
     (let dir = intermediate_output_dir a; suffix = file_suffix a;
          local_foraging_effectiveness_task = add_task ''_SumRasters''
            (os_path_join dir (''local_foraging_effectiveness_'' @ species @ suffix @ ''.tif''))
      in case kernel_path a sv species of
           Inl e \<Rightarrow> ([local_foraging_effectiveness_task], Some e)
         | Inr kernel_raster \<Rightarrow>
             ([local_foraging_effectiveness_task,
               add_task ''utils.exponential_decay_kernel_raster'' kernel_raster,
               add_task ''pygeoprocessing.convolve_2d''
                 (os_path_join dir (''floral_resources_'' @ species @ suffix @ ''.tif'')),
               add_task ''_PollinatorSupplyIndexOp''
                 (os_path_join (output_dir a)
                    (''pollinator_supply_'' @ species @ suffix @ ''.tif'')),
               add_task ''pygeoprocessing.convolve_2d''
                 (os_path_join dir (''convolve_ps_'' @ species @ suffix @ ''.tif''))]
              @ map (\<lambda>season. add_task ''_PollinatorSupplyOp''
                       (os_path_join (output_dir a)
                          (''pollinator_abundance_'' @ species @ ''_'' @ season @ suffix
                           @ ''.tif'')))
                  (season_list sv),
              None))"

fun species_loop ::
  "exec_args \<Rightarrow> scenario_variables \<Rightarrow> string list \<Rightarrow> task list \<times> config_error option" where
  "species_loop a sv [] = ([], None)"
| "species_loop a sv (species # rest) =
     (case species_tasks a sv species of
        (ts, Some e) \<Rightarrow> (ts, Some e)
      | (ts, None) \<Rightarrow> (case species_loop a sv rest of (ts', e) \<Rightarrow> (ts @ ts', e)))"

text \<open>The tasks of the farm-yield part, registered when a farm vector is given.\<close>

definition farm_tasks :: "exec_args \<Rightarrow> scenario_variables \<Rightarrow> task list" where
  "farm_tasks a sv =
     (let dir = intermediate_output_dir a; suffix = file_suffix a in
      add_task ''pygeoprocessing.new_raster_from_base''
        (os_path_join dir (''blank_raster'' @ suffix @ ''.tif''))
      # concat (map (\<lambda>season.
            [add_task ''_SumRasters''
               (os_path_join (output_dir a)
                  (''total_pollinator_abundance_'' @ season @ suffix @ ''.tif'')),
             add_task ''_rasterize_vector_onto_base''
               (os_path_join dir (''half_saturation_'' @ season @ suffix @ ''.tif'')),
             add_task ''_OnFarmPollinatorAbundance''
               (os_path_join dir (''farm_pollinator_'' @ season @ suffix @ ''.tif''))])
          (season_list sv))
      @ [add_task ''_SumRasters''
           (os_path_join (output_dir a) (''farm_pollinators'' @ suffix @ ''.tif'')),
         add_task ''_rasterize_vector_onto_base''
           (os_path_join dir (''managed_pollinators'' @ suffix @ ''.tif'')),
         add_task ''_PYTOp''
           (os_path_join (output_dir a) (''total_pollinator_yield'' @ suffix @ ''.tif'')),
         add_task ''_PYWOp''
           (os_path_join (output_dir a) (''wild_pollinator_yield'' @ suffix @ ''.tif''))])"

text \<open>
  \<^verbatim>\<open>execute\<close>, as far as the task graph goes: the scenario is parsed first, the task
  graph is created after it, then the tasks are registered. The run is the list of
  registered tasks and the exception that ended it, if any. The aggregation of the
  farm results after the last task is not modelled.
\<close>

record run =
  raised :: "config_error option"
  tasks :: "task list"

definition execute :: "exec_args \<Rightarrow> run" where
  "execute a =
     (case parse_scenario_variables (tables a) of
        Inl e \<Rightarrow> \<lparr> raised = Some e, tasks = [] \<rparr>
      | Inr scenario_variables \<Rightarrow>
          (case species_loop a scenario_variables (species_list scenario_variables) of
             (ts, Some e) \<Rightarrow>
               \<lparr> raised = Some e, tasks = early_tasks a scenario_variables @ ts \<rparr>
           | (ts, None) \<Rightarrow>
               \<lparr> raised = None,
                 tasks = early_tasks a scenario_variables @ ts
                   @ (if farm (tables a) = None then []
                      else farm_tasks a scenario_variables) \<rparr>))"

section \<open>Validation of the arguments\<close>

text \<open>
  \<^verbatim>\<open>validate\<close>. A value of \<^verbatim>\<open>args\<close> is a string or \<^verbatim>\<open>None\<close>. The file system and the
  GDAL and OGR openers are parameters. \<^verbatim>\<open>os.path.exists(None)\<close> raises \<^verbatim>\<open>TypeError\<close>.
\<close>

datatype pyval = PyNone | PyStr string

record file_system =
  path_exists :: "string \<Rightarrow> bool"
  gdal_opens :: "string \<Rightarrow> bool"
  ogr_opens :: "string \<Rightarrow> bool"

datatype validate_error = ArgsKeyError string | ArgsTypeError

type_synonym validation_errors = "(string list \<times> string) list"

definition os_path_exists :: "file_system \<Rightarrow> pyval \<Rightarrow> validate_error + bool" where
  "os_path_exists fs v = (case v of PyNone \<Rightarrow> Inl ArgsTypeError
                          | PyStr path \<Rightarrow> Inr (path_exists fs path))"

definition selected :: "string option \<Rightarrow> string \<Rightarrow> bool" where
  "selected limit_to key = (limit_to = None \<or> limit_to = Some key)"

definition args_get :: "(string, pyval) dict \<Rightarrow> string \<Rightarrow> validate_error + pyval" where
  "args_get args key = (case map_of args key of None \<Rightarrow> Inl (ArgsKeyError key)
                        | Some v \<Rightarrow> Inr v)"

text \<open>The loop that reports the paths which are not on disk.\<close>

definition exists_step ::
  "file_system \<Rightarrow> (string, pyval) dict \<Rightarrow> string option \<Rightarrow> string \<Rightarrow> validation_errors
     \<Rightarrow> validate_error + validation_errors" where
  "exists_step fs args limit_to key validation_error_list =
     (if selected limit_to key
      then bind_err (args_get args key) (\<lambda>v.
           bind_err (os_path_exists fs v) (\<lambda>found.
             Inr (if \<not> found then validation_error_list @ [([key], ''not found on disk'')]
                  else validation_error_list)))
      else Inr validation_error_list)"

text \<open>The loop that opens the raster and the vector.\<close>

definition type_step ::
  "file_system \<Rightarrow> (string, pyval) dict \<Rightarrow> string option \<Rightarrow> string \<times> string
     \<Rightarrow> validation_errors \<Rightarrow> validate_error + validation_errors" where
  "type_step fs args limit_to key_and_type validation_error_list =
     (let key = fst key_and_type; key_type = snd key_and_type in
      case map_of args key of
        None \<Rightarrow> Inr validation_error_list
      | Some v \<Rightarrow>
          if \<not> selected limit_to key then Inr validation_error_list
          else bind_err (os_path_exists fs v) (\<lambda>found.
            if \<not> found then Inr (validation_error_list @ [([key], ''not found on disk'')])
            else (case v of
                    PyNone \<Rightarrow> Inl ArgsTypeError
                  | PyStr path \<Rightarrow>
                      if key_type = ''raster''
                      then Inr (if \<not> gdal_opens fs path
                                then validation_error_list @ [([key], ''not a raster'')]
                                else validation_error_list)
                      else if key_type = ''vector''
                      then Inr (if \<not> ogr_opens fs path
                                then validation_error_list @ [([key], ''not a vector'')]
                                else validation_error_list)
                      else Inr validation_error_list)))"

definition validate ::
  "file_system \<Rightarrow> (string, pyval) dict \<Rightarrow> string option \<Rightarrow> validate_error + validation_errors" where
  "validate fs args limit_to =
     (let checked = filter (selected limit_to)
            [''workspace_dir'', ''landcover_raster_path'', ''guild_table_path'',
             ''landcover_biophysical_table_path'', ''farm_vector_path''];
          missing_key_list = filter (\<lambda>key. map_of args key = None) checked;
          no_value_list = filter (\<lambda>key. map_of args key = Some (PyStr [])
                                        \<or> map_of args key = Some PyNone) checked
      in
      if length missing_key_list > 0
      then Inl (ArgsKeyError
                  (''The following keys were expected in `args` but were missing''
                   @ join '', '' missing_key_list))
      else
        let validation_error_list =
              (if length no_value_list > 0 then [(no_value_list, ''parameter has no value'')]
               else [])
        in
        bind_err (fold_err (exists_step fs args limit_to)
                    [''landcover_raster_path'', ''guild_table_path'',
                     ''landcover_biophysical_table_path'', ''farm_vector_path'']
                    validation_error_list)
          (fold_err (type_step fs args limit_to)
             [(''landcover_raster_path'', ''raster''), (''farm_vector_path'', ''vector'')]))"

text \<open>
  The sum, at pixel \<open>i\<close>, of the inputs that are not no-data there (a no-data input
  counts as \<open>0\<close>): the value the raster sum is specified to return.
\<close>

definition valid_sum :: "array list \<Rightarrow> nat \<Rightarrow> real" where
  "valid_sum array_list i =
     (\<Sum>a \<leftarrow> array_list. if a ! i = INDEX_NODATA then 0 else a ! i)"

section \<open>Names and tables, as the specification speaks of them\<close>

text \<open>
  A name is discovered in a list of headers by a pattern when some header matches
  with the name as its group. \<open>season_found_in\<close> and \<open>substrate_found_in\<close> are the
  tables (\<open>guild\<close>, \<open>farm\<close>, \<open>biophysical\<close>) in whose headers a season or substrate
  name is discovered; \<open>required_tables\<close> are the tables that must define every name.
\<close>

definition matches :: "pattern \<Rightarrow> string \<Rightarrow> string \<Rightarrow> bool" where
  "matches pat header name = (\<exists>w. re_match pat header = Some (name, w))"

definition discovered :: "pattern \<Rightarrow> string list \<Rightarrow> string \<Rightarrow> bool" where
  "discovered pat headers name =
     list_ex (\<lambda>header. case re_match pat header of None \<Rightarrow> False
                        | Some (captured, _) \<Rightarrow> captured = name) headers"

definition headers_or_none :: "config_error + string list \<Rightarrow> string list" where
  "headers_or_none r = (case r of Inl _ \<Rightarrow> [] | Inr headers \<Rightarrow> headers)"

definition found_in ::
  "inputs \<Rightarrow> pattern \<Rightarrow> pattern \<Rightarrow> pattern \<Rightarrow> string \<Rightarrow> string set" where
  "found_in inp guild_pattern farm_pattern biophysical_pattern name =
     (if discovered guild_pattern (headers_or_none (guild_headers_of inp)) name
      then {''guild''} else {})
     \<union> (case farm inp of
          None \<Rightarrow> {}
        | Some farm_layer \<Rightarrow>
            if discovered farm_pattern (farm_headers farm_layer) name then {''farm''} else {})
     \<union> (if discovered biophysical_pattern (headers_or_none (biophysical_headers_of inp)) name
        then {''biophysical''} else {})"

definition season_found_in :: "inputs \<Rightarrow> string \<Rightarrow> string set" where
  "season_found_in inp =
     found_in inp FORAGING_ACTIVITY_RE_PATTERN FARM_FLORAL_RESOURCES_PATTERN
       FLORAL_RESOURCES_AVAILABLE_PATTERN"

definition substrate_found_in :: "inputs \<Rightarrow> string \<Rightarrow> string set" where
  "substrate_found_in inp =
     found_in inp NESTING_SUITABILITY_PATTERN FARM_NESTING_SUBSTRATE_RE_PATTERN
       NESTING_SUBSTRATE_PATTERN"

definition required_tables :: "inputs \<Rightarrow> string set" where
  "required_tables inp =
     (if farm inp = None then {''guild'', ''biophysical''}
      else {''guild'', ''farm'', ''biophysical''})"

text \<open>
  The tables recorded for a name in a header dictionary, and what one header loop
  adds to a dictionary: a key for every discovered name and the table's name in the
  entries of those keys.
\<close>

definition entry_tables :: "header_map \<Rightarrow> string \<Rightarrow> string set" where
  "entry_tables d name = (case map_of d name of None \<Rightarrow> {} | Some lt \<Rightarrow> fst ` set lt)"

definition recorded :: "string \<Rightarrow> pattern \<Rightarrow> string list \<Rightarrow> header_map \<Rightarrow> header_map \<Rightarrow> bool" where
  "recorded tbl pat hs before after \<longleftrightarrow>
     distinct (map fst after)
     \<and> fst ` set after = fst ` set before \<union> {n. discovered pat hs n}
     \<and> (\<forall>n. entry_tables after n
              = entry_tables before n \<union> (if discovered pat hs n then {tbl} else {}))"

definition well_recorded :: "inputs \<Rightarrow> header_map \<times> header_map \<Rightarrow> bool" where
  "well_recorded inp maps \<longleftrightarrow>
     distinct (map fst (fst maps)) \<and> distinct (map fst (snd maps))
     \<and> fst ` set (fst maps) = {n. season_found_in inp n \<noteq> {}}
     \<and> fst ` set (snd maps) = {n. substrate_found_in inp n \<noteq> {}}
     \<and> (\<forall>n. entry_tables (fst maps) n = season_found_in inp n)
     \<and> (\<forall>n. entry_tables (snd maps) n = substrate_found_in inp n)"

text \<open>
  The weights stored in a result dictionary under a list of keys, and their sum,
  which exists when every weight is finite. \<open>activity_chunk\<close> describes the entries
  one species contributes to \<^verbatim>\<open>species_foraging_activity\<close>.
\<close>

definition the_weights :: "('k, npfloat) dict \<Rightarrow> 'k list \<Rightarrow> npfloat list" where
  "the_weights d keys = map (\<lambda>k. case map_of d k of None \<Rightarrow> NonFinite | Some w \<Rightarrow> w) keys"

definition weights_sum :: "npfloat list \<Rightarrow> real option" where
  "weights_sum ws =
     (if NonFinite \<in> set ws then None
      else Some (\<Sum>w \<leftarrow> ws. case w of Finite x \<Rightarrow> x | NonFinite \<Rightarrow> 0))"

definition activity_chunk ::
  "(string, row) dict \<Rightarrow> string list \<Rightarrow> string \<Rightarrow> (string \<times> string, npfloat) dict \<Rightarrow> bool" where
  "activity_chunk guild seasons sp chunk \<longleftrightarrow>
     (\<exists>vs. foraging_activities guild seasons sp = Inr vs
        \<and> chunk = zip (map (Pair sp) seasons)
                    (map (\<lambda>v. np_true_divide v (sum_list vs)) vs))"

section \<open>Example scenarios\<close>

text \<open>
  Small tables for the concrete instances below: one species, one substrate, and a
  biophysical table with a spring and a summer season. \<open>guild_spring_only\<close> lacks the
  summer column, \<open>guild_no_season\<close> has no foraging-activity column at all.
  \<open>guild_two\<close> has two species with the same flight distance and both seasons,
  \<open>guild_two_reordered\<close> is the same table with rows and columns in another order,
  and \<open>two_species\<close> is the scenario parsed from either. In \<open>guild_idle\<close> the species
  forages in no season.
\<close>

definition guild_spring_only :: "(string, row) dict" where
  "guild_spring_only =
     [(''bombus'', [(''species'', Str ''bombus''), (''nesting_suitability_cavity_index'', Num 1),
        (''foraging_activity_spring_index'', Num 1), (''alpha'', Num 60),
        (''relative_abundance'', Num 1)])]"

definition guild_no_season :: "(string, row) dict" where
  "guild_no_season =
     [(''bombus'', [(''species'', Str ''bombus''), (''nesting_suitability_cavity_index'', Num 1),
        (''alpha'', Num 60), (''relative_abundance'', Num 1)])]"

definition biophysical_two :: "(real, row) dict" where
  "biophysical_two =
     [(1, [(''lucode'', Num 1), (''nesting_cavity_availability_index'', Num 1),
        (''floral_resources_spring_index'', Num 1),
        (''floral_resources_summer_index'', Num (1/2))])]"

definition guild_two :: "(string, row) dict" where
  "guild_two =
     [(''bombus'', [(''species'', Str ''bombus''), (''nesting_suitability_cavity_index'', Num 1),
        (''foraging_activity_spring_index'', Num 3), (''foraging_activity_summer_index'', Num 1),
        (''alpha'', Num 60), (''relative_abundance'', Num 1)]),
      (''apis'', [(''species'', Str ''apis''), (''nesting_suitability_cavity_index'', Num (1/2)),
        (''foraging_activity_spring_index'', Num 1), (''foraging_activity_summer_index'', Num 1),
        (''alpha'', Num 60), (''relative_abundance'', Num 3)])]"

definition guild_two_reordered :: "(string, row) dict" where
  "guild_two_reordered =
     [(''apis'', [(''relative_abundance'', Num 3), (''alpha'', Num 60),
        (''foraging_activity_summer_index'', Num 1), (''foraging_activity_spring_index'', Num 1),
        (''nesting_suitability_cavity_index'', Num (1/2)), (''species'', Str ''apis'')]),
      (''bombus'', [(''relative_abundance'', Num 1), (''alpha'', Num 60),
        (''foraging_activity_summer_index'', Num 1), (''foraging_activity_spring_index'', Num 3),
        (''nesting_suitability_cavity_index'', Num 1), (''species'', Str ''bombus'')])]"

definition guild_idle :: "(string, row) dict" where
  "guild_idle =
     [(''bombus'', [(''species'', Str ''bombus''), (''nesting_suitability_cavity_index'', Num 1),
        (''foraging_activity_spring_index'', Num 0), (''foraging_activity_summer_index'', Num 0),
        (''alpha'', Num 60), (''relative_abundance'', Num 1)])]"

definition two_species :: scenario_variables where
  "two_species =
     \<lparr> season_list = [''spring'', ''summer''], substrate_list = [''cavity''],
       species_list = [''apis'', ''bombus''],
       alpha_value = [(''apis'', 60), (''bombus'', 60)],
       species_abundance = [(''apis'', Finite (3/4)), (''bombus'', Finite (1/4))],
       species_foraging_activity =
         [((''apis'', ''spring''), Finite (1/2)), ((''apis'', ''summer''), Finite (1/2)),
          ((''bombus'', ''spring''), Finite (3/4)), ((''bombus'', ''summer''), Finite (1/4))],
       landcover_substrate_index = [(''cavity'', [(1, Num 1)])],
       landcover_floral_resources =
         [(''spring'', [(1, Num 1)]), (''summer'', [(1, Num (1/2))])],
       species_substrate_index =
         [(''apis'', [(''cavity'', Num (1/2))]), (''bombus'', [(''cavity'', Num 1)])],
       foraging_activity_index =
         [((''apis'', ''spring''), Num 1), ((''apis'', ''summer''), Num 1),
          ((''bombus'', ''spring''), Num 3), ((''bombus'', ''summer''), Num 1)] \<rparr>"

definition scenario_of :: "(string, row) dict \<Rightarrow> inputs" where
  "scenario_of guild = \<lparr> guild_table_path = ''guild.csv'', guild_table = guild,
     landcover_biophysical_table_path = ''biophysical.csv'',
     landcover_biophysical_table = biophysical_two,
     farm_vector_path = [], farm = None \<rparr>"

definition run_of :: "inputs \<Rightarrow> exec_args" where
  "run_of inp = \<lparr> workspace_dir = ''w'', file_suffix = ''_x'', mean_pixel_size = 30,
     tables = inp \<rparr>"

section \<open>Facts about the array operations\<close>

lemma length_full_like [simp]: "length (full_like a v) = length a"
  by (simp add: full_like_def)

lemma length_ne_mask [simp]: "length (ne_mask a v) = length a"
  by (simp add: ne_mask_def)

lemma length_eq_mask [simp]: "length (eq_mask a v) = length a"
  by (simp add: eq_mask_def)

lemma length_gt_mask [simp]: "length (gt_mask a v) = length a"
  by (simp add: gt_mask_def)

lemma length_lt_mask [simp]: "length (lt_mask a v) = length a"
  by (simp add: lt_mask_def)

lemma length_and_mask [simp]: "length (and_mask m1 m2) = min (length m1) (length m2)"
  by (simp add: and_mask_def)

lemma length_or_mask [simp]: "length (or_mask m1 m2) = min (length m1) (length m2)"
  by (simp add: or_mask_def)

lemma length_not_mask [simp]: "length (not_mask m) = length m"
  by (simp add: not_mask_def)

lemma length_put_const [simp]: "length (put_const r m c) = min (length r) (length m)"
  by (simp add: put_const_def)

lemma length_put_mask [simp]: "length (put_mask r m vs) = length r"
  by (induction r m vs rule: put_mask.induct) (auto split: list.splits)

lemma take_mask_map2:
  "length a = length m \<Longrightarrow> length b = length m \<Longrightarrow>
   map2 f (take_mask a m) (take_mask b m) = take_mask (map2 f a b) m"
proof -
  assume "length a = length m" "length b = length m"
  then have "length a = length m" "length m = length b" by simp_all
  then show ?thesis
    unfolding take_mask_def by (induction a m b rule: list_induct3) auto
qed

lemma take_mask_map:
  "length a = length m \<Longrightarrow> map f (take_mask a m) = take_mask (map f a) m"
  unfolding take_mask_def
  by (induction a m rule: list_induct2) auto

lemma put_take_mask:
  "length r = length m \<Longrightarrow> length v = length m \<Longrightarrow>
   put_mask r m (take_mask v m) = map (\<lambda>(x, b, y). if b then y else x) (zip r (zip m v))"
proof -
  assume "length r = length m" "length v = length m"
  then have "length r = length m" "length m = length v" by simp_all
  then show ?thesis
    unfolding take_mask_def by (induction r m v rule: list_induct3) auto
qed

lemma nth_put_take_mask:
  assumes "length r = length m" "length v = length m" "i < length m"
  shows "put_mask r m (take_mask v m) ! i = (if m ! i then v ! i else r ! i)"
  using assms by (simp add: put_take_mask)

lemma nth_put_const:
  "i < length r \<Longrightarrow> i < length m \<Longrightarrow> put_const r m c ! i = (if m ! i then c else r ! i)"
  by (simp add: put_const_def)

lemma PYTOp_pixelwise:
  assumes "length FP_array = length mp_array"
  shows "PYTOp mp_array FP_array =
    Inr (map2 (\<lambda>mp fp. if mp = INDEX_NODATA then INDEX_NODATA else min (mp + fp) 1)
           mp_array FP_array)"
proof -
  let ?valid = "ne_mask mp_array INDEX_NODATA"
  let ?r0 = "full_like mp_array INDEX_NODATA"
  let ?r1 = "put_mask ?r0 ?valid (take_mask (map2 (+) mp_array FP_array) ?valid)"
  let ?r2 = "put_const ?r1 (and_mask ?valid (gt_mask ?r1 1)) 1"
  have r1: "?r1 ! i = (if mp_array ! i \<noteq> INDEX_NODATA then mp_array ! i + FP_array ! i
                        else INDEX_NODATA)" if "i < length mp_array" for i
    using that assms by (simp add: nth_put_take_mask) (simp add: ne_mask_def full_like_def)
  have "?r2 = map2 (\<lambda>mp fp. if mp = INDEX_NODATA then INDEX_NODATA else min (mp + fp) 1)
                mp_array FP_array"
  proof (rule nth_equalityI)
    show "length ?r2 = length (map2 (\<lambda>mp fp. if mp = INDEX_NODATA then INDEX_NODATA
            else min (mp + fp) 1) mp_array FP_array)"
      using assms by simp
  next
    fix i assume "i < length ?r2"
    then have i: "i < length mp_array" by simp
    then have "?r2 ! i = (if (and_mask ?valid (gt_mask ?r1 1)) ! i then 1 else ?r1 ! i)"
      by (simp add: nth_put_const)
    also have "(and_mask ?valid (gt_mask ?r1 1)) ! i
        = (mp_array ! i \<noteq> INDEX_NODATA \<and> ?r1 ! i > 1)"
      using i by (simp add: and_mask_def ne_mask_def gt_mask_def)
    finally show "?r2 ! i = map2 (\<lambda>mp fp. if mp = INDEX_NODATA then INDEX_NODATA
            else min (mp + fp) 1) mp_array FP_array ! i"
      using i assms by (auto simp: r1 min_def)
  qed
  then show ?thesis
    using assms by (simp add: PYTOp_def Let_def take_mask_map2)
qed

lemma PYWOp_pixelwise:
  assumes "length PYT_array = length mp_array"
  shows "PYWOp mp_array PYT_array =
    Inr (map2 (\<lambda>mp pyt. if mp = INDEX_NODATA then INDEX_NODATA else max 0 (pyt - mp))
           mp_array PYT_array)"
proof -
  let ?valid = "ne_mask mp_array INDEX_NODATA"
  let ?r0 = "full_like mp_array INDEX_NODATA"
  let ?r1 = "put_mask ?r0 ?valid (take_mask (map2 (-) PYT_array mp_array) ?valid)"
  let ?r2 = "put_const ?r1 (and_mask ?valid (lt_mask ?r1 0)) 0"
  have r1: "?r1 ! i = (if mp_array ! i \<noteq> INDEX_NODATA then PYT_array ! i - mp_array ! i
                        else INDEX_NODATA)" if "i < length mp_array" for i
    using that assms by (simp add: nth_put_take_mask) (simp add: ne_mask_def full_like_def)
  have "?r2 = map2 (\<lambda>mp pyt. if mp = INDEX_NODATA then INDEX_NODATA else max 0 (pyt - mp))
                mp_array PYT_array"
  proof (rule nth_equalityI)
    show "length ?r2 = length (map2 (\<lambda>mp pyt. if mp = INDEX_NODATA then INDEX_NODATA
            else max 0 (pyt - mp)) mp_array PYT_array)"
      using assms by simp
  next
    fix i assume "i < length ?r2"
    then have i: "i < length mp_array" by simp
    then have "?r2 ! i = (if (and_mask ?valid (lt_mask ?r1 0)) ! i then 0 else ?r1 ! i)"
      by (simp add: nth_put_const)
    also have "(and_mask ?valid (lt_mask ?r1 0)) ! i
        = (mp_array ! i \<noteq> INDEX_NODATA \<and> ?r1 ! i < 0)"
      using i by (simp add: and_mask_def ne_mask_def lt_mask_def)
    finally show "?r2 ! i = map2 (\<lambda>mp pyt. if mp = INDEX_NODATA then INDEX_NODATA
            else max 0 (pyt - mp)) mp_array PYT_array ! i"
      using i assms by (auto simp: r1 max_def)
  qed
  then show ?thesis
    using assms by (simp add: PYWOp_def Let_def take_mask_map2)
qed

section \<open>The kernels, pixel by pixel\<close>


lemma set_take_mask:
  "length a = length m \<Longrightarrow> set (take_mask a m) = {a ! i | i. i < length m \<and> m ! i}"
  unfolding take_mask_def
  by (auto simp: set_zip in_set_conv_nth image_iff) force+

lemma MultByScalar_pixelwise:
  "MultByScalar scalar array =
     Inr (map (\<lambda>x. if x = INDEX_NODATA then INDEX_NODATA else x * scalar) array)"
proof -
  let ?valid = "ne_mask array INDEX_NODATA"
  have "put_mask (full_like array INDEX_NODATA) ?valid
          (take_mask (map (\<lambda>x. x * scalar) array) ?valid)
        = map (\<lambda>x. if x = INDEX_NODATA then INDEX_NODATA else x * scalar) array"
    by (rule nth_equalityI) (simp_all add: nth_put_take_mask ne_mask_def full_like_def)
  then show ?thesis
    by (simp add: MultByScalar_def Let_def take_mask_map)
qed

lemma PollinatorSupplyIndexOp_pixelwise:
  assumes "length hn = length fr"
  shows "PollinatorSupplyIndexOp sa fr hn =
    Inr (map2 (\<lambda>f h. if f = INDEX_NODATA then INDEX_NODATA else sa * f * h) fr hn)"
proof -
  let ?valid = "ne_mask fr INDEX_NODATA"
  have "put_mask (full_like fr INDEX_NODATA) ?valid
          (take_mask (map2 (*) (map (\<lambda>x. sa * x) fr) hn) ?valid)
        = map2 (\<lambda>f h. if f = INDEX_NODATA then INDEX_NODATA else sa * f * h) fr hn"
    using assms
    by (intro nth_equalityI) (simp_all add: nth_put_take_mask ne_mask_def full_like_def)
  then show ?thesis
    using assms by (simp add: PollinatorSupplyIndexOp_def Let_def take_mask_map take_mask_map2)
qed

lemma pa_divisors_nonzero:
  assumes "length fr = length f"
  shows "0 \<notin> set (take_mask fr (pa_result_mask f fr))"
  using assms
  by (auto simp: set_take_mask pa_result_mask_def Let_def and_mask_def not_mask_def
      eq_mask_def ne_mask_def)

lemma PollinatorSupplyOp_pixelwise:
  assumes "length fr = length f" "length c = length f"
  shows "PollinatorSupplyOp f fr c =
    Inr (map (\<lambda>(x, y, z). if x = INDEX_NODATA then INDEX_NODATA
                            else if y = 0 then 0 else x / y * z) (zip f (zip fr c)))"
proof -
  let ?rm = "pa_result_mask f fr"
  let ?r0 = "put_const (full_like f INDEX_NODATA)
               (and_mask (eq_mask fr 0) (ne_mask f INDEX_NODATA)) 0"
  have lrm: "length ?rm = length f"
    using assms by (simp add: pa_result_mask_def Let_def)
  have nz: "0 \<notin> set (take_mask fr ?rm)"
    using assms(1) by (rule pa_divisors_nonzero)
  have "put_mask ?r0 ?rm (take_mask (map2 (*) (map2 (/) f fr) c) ?rm)
      = map (\<lambda>(x, y, z). if x = INDEX_NODATA then INDEX_NODATA
                            else if y = 0 then 0 else x / y * z) (zip f (zip fr c))"
    using assms lrm
    by (intro nth_equalityI)
       (auto simp: nth_put_take_mask nth_put_const pa_result_mask_def Let_def and_mask_def
          not_mask_def eq_mask_def ne_mask_def full_like_def)
  then show ?thesis
    using assms nz lrm
    by (simp add: PollinatorSupplyOp_def Let_def np_divide_def take_mask_map2)
qed


lemma sum_step_length:
  "length r = length a \<Longrightarrow> length v = length a \<Longrightarrow>
   length (fst (sum_step (r, v) a)) = length a \<and> length (snd (sum_step (r, v) a)) = length a"
  by (simp add: sum_step_def Let_def)

lemma sum_step_nth:
  assumes "length r = length a" "length v = length a" "i < length a"
  shows "fst (sum_step (r, v) a) ! i = (if a ! i = INDEX_NODATA then r ! i else r ! i + a ! i)"
    and "snd (sum_step (r, v) a) ! i = (v ! i \<or> a ! i \<noteq> INDEX_NODATA)"
  using assms
  by (simp_all add: sum_step_def Let_def take_mask_map2 nth_put_take_mask or_mask_def
      ne_mask_def)

lemma foldl_sum_step:
  assumes "\<forall>a \<in> set as. length a = n" "length r = n" "length v = n" "i < n"
  shows "length (fst (foldl sum_step (r, v) as)) = n
       \<and> length (snd (foldl sum_step (r, v) as)) = n
       \<and> fst (foldl sum_step (r, v) as) ! i = r ! i + valid_sum as i
       \<and> snd (foldl sum_step (r, v) as) ! i = (v ! i \<or> (\<exists>a \<in> set as. a ! i \<noteq> INDEX_NODATA))"
  using assms
proof (induction as arbitrary: r v)
  case Nil
  then show ?case by (simp add: valid_sum_def)
next
  case (Cons a as)
  obtain r' v' where st: "sum_step (r, v) a = (r', v')" by (cases "sum_step (r, v) a")
  have la: "length a = n" using Cons.prems by simp
  have len: "length r' = n" "length v' = n"
    using sum_step_length [of r a v] Cons.prems la st by simp_all
  have nth: "r' ! i = (if a ! i = INDEX_NODATA then r ! i else r ! i + a ! i)"
    "v' ! i = (v ! i \<or> a ! i \<noteq> INDEX_NODATA)"
    using sum_step_nth [of r a v i] Cons.prems la st by simp_all
  have "\<forall>a \<in> set as. length a = n" using Cons.prems by simp
  from Cons.IH [OF this len \<open>i < n\<close>] show ?case
    by (auto simp: st nth valid_sum_def)
qed

lemma SumRasters_pixel:
  assumes "array_list \<noteq> []"
    and "\<forall>a \<in> set array_list. length a = length (hd array_list)"
    and "i < length (hd array_list)"
  shows "\<exists>r. SumRasters array_list = Inr r \<and> length r = length (hd array_list)
            \<and> r ! i = (if \<forall>a \<in> set array_list. a ! i = INDEX_NODATA then INDEX_NODATA
                       else valid_sum array_list i)"
proof -
  obtain a0 rest where al: "array_list = a0 # rest" using assms(1) by (cases array_list) auto
  define st where "st = foldl sum_step (full_like a0 0, map (\<lambda>_. False) a0) array_list"
  have inv: "length (fst st) = length a0 \<and> length (snd st) = length a0
       \<and> fst st ! i = full_like a0 0 ! i + valid_sum array_list i
       \<and> snd st ! i = (map (\<lambda>_. False) a0 ! i \<or> (\<exists>a \<in> set array_list. a ! i \<noteq> INDEX_NODATA))"
    unfolding st_def using assms al by (intro foldl_sum_step) simp_all
  have "SumRasters array_list = Inr (put_const (fst st) (not_mask (snd st)) INDEX_NODATA)"
    unfolding st_def using assms(2) al by (simp add: SumRasters_def Let_def)
  moreover have "i < length a0" "hd array_list = a0" using assms(3) al by simp_all
  ultimately show ?thesis
    using inv by (auto simp: nth_put_const not_mask_def full_like_def)
qed

lemma foldl_map2_max:
  assumes "\<forall>row \<in> set rows. length row = length r0" "i < length r0"
  shows "length (foldl (map2 max) r0 rows) = length (r0 :: real list)
       \<and> foldl (map2 max) r0 rows ! i = fold max (map (\<lambda>row. row ! i) rows) (r0 ! i)"
  using assms
proof (induction rows arbitrary: r0)
  case Nil
  then show ?case by simp
next
  case (Cons row rows)
  have l: "length (map2 max r0 row) = length r0" using Cons.prems by simp
  have "\<forall>x \<in> set rows. length x = length (map2 max r0 row)" using Cons.prems l by simp
  from Cons.IH [OF this] Cons.prems l show ?case
    by (simp add: max.commute [of "r0 ! i" "row ! i"])
qed

lemma max_op_pixel:
  assumes "arrays \<noteq> []"
    and "\<forall>a \<in> set arrays. length a = length (hd arrays)"
    and "length ns = length arrays"
    and "i < length (hd arrays)"
  shows "\<exists>r. max_op ns arrays = Inr r \<and> length r = length (hd arrays)
            \<and> r ! i = (if hd arrays ! i = INDEX_NODATA then INDEX_NODATA
                       else Max ((\<lambda>n. arrays ! n ! i * ns ! n) ` {..<length arrays}))"
proof -
  obtain a0 rest where al: "arrays = a0 # rest" using assms(1) by (cases arrays) auto
  obtain s0 srest where ns: "ns = s0 # srest" using assms(3) al by (cases ns) auto
  define scaled where "scaled = map2 (\<lambda>a s. map (\<lambda>x. x * s) a) arrays ns"
  define res where "res = foldl (map2 max) (hd scaled) (tl scaled)"
  have h: "hd arrays = a0" using al by simp
  have "scaled \<noteq> []" unfolding scaled_def using al ns by simp
  then have sc: "scaled = hd scaled # tl scaled" by simp
  have lens: "\<forall>row \<in> set scaled. length row = length a0"
    unfolding scaled_def using assms(2) h by (auto dest!: set_zip_leftD)
  have lh: "length (hd scaled) = length a0"
    using lens sc by (metis list.set_intros(1))
  have lt: "\<forall>row \<in> set (tl scaled). length row = length (hd scaled)"
    using lens lh sc by (metis list.set_intros(2))
  have ih: "i < length (hd scaled)" using assms(4) h lh by simp
  have res: "length res = length (hd scaled)"
    "res ! i = fold max (map (\<lambda>row. row ! i) (tl scaled)) (hd scaled ! i)"
    unfolding res_def using foldl_map2_max [OF lt ih] by simp_all
  have "map (\<lambda>row. row ! i) scaled
      = hd scaled ! i # map (\<lambda>row. row ! i) (tl scaled)"
    using sc by (metis list.simps(9))
  then have "res ! i = Max (set (map (\<lambda>row. row ! i) scaled))"
    using res(2) Max.set_eq_fold [of "hd scaled ! i" "map (\<lambda>row. row ! i) (tl scaled)"]
    by simp
  also have "set (map (\<lambda>row. row ! i) scaled)
      = (\<lambda>n. arrays ! n ! i * ns ! n) ` {..<length arrays}"
  proof -
    have "i < length (arrays ! n)" if "n < length arrays" for n
      using that assms(2,4) nth_mem [of n arrays] by simp
    then have "map (\<lambda>row. row ! i) scaled = map (\<lambda>n. arrays ! n ! i * ns ! n) [0..<length arrays]"
      unfolding scaled_def using assms(3) by (intro nth_equalityI) simp_all
    then show ?thesis by (simp add: atLeast0LessThan)
  qed
  finally have val: "res ! i = Max ((\<lambda>n. arrays ! n ! i * ns ! n) ` {..<length arrays})" .
  have eq: "max_op ns arrays = Inr (put_const res (eq_mask a0 INDEX_NODATA) INDEX_NODATA)"
    unfolding res_def scaled_def using assms(2,3) al by (simp add: max_op_def Let_def)
  have "i < length res" "i < length a0" using res(1) lh assms(4) h by simp_all
  then have "put_const res (eq_mask a0 INDEX_NODATA) INDEX_NODATA ! i
      = (if a0 ! i = INDEX_NODATA then INDEX_NODATA else res ! i)"
    by (simp add: nth_put_const eq_mask_def)
  moreover have "length (put_const res (eq_mask a0 INDEX_NODATA) INDEX_NODATA) = length a0"
    using res(1) lh by simp
  ultimately show ?thesis
    unfolding eq h using val by auto
qed


text \<open>
  The on-farm kernel masks both inputs, and a zero divisor does not stop it: the pixel
  gets \<open>nan\<close> or \<open>inf\<close> and every other pixel is computed.
\<close>

lemma OnFarmPollinatorAbundance_pixelwise:
  assumes "length pat = length h"
  shows "OnFarmPollinatorAbundance h pat =
    Inr (map2 (\<lambda>x p. if x = INDEX_NODATA \<or> p = INDEX_NODATA then Finite INDEX_NODATA
                       else np_true_divide (p * (1 - x)) (x * (1 - 2 * p) + p)) h pat)"
proof -
  define vm where "vm = and_mask (ne_mask h INDEX_NODATA) (ne_mask pat INDEX_NODATA)"
  have lvm: "length vm = length h" unfolding vm_def using assms by simp
  define num where "num = map2 (\<lambda>p x. p * (1 - x)) pat h"
  define den where "den = map2 (\<lambda>x p. x * (1 - 2 * p) + p) h pat"
  have tm: "map2 (\<lambda>p x. p * (1 - x)) (take_mask pat vm) (take_mask h vm) = take_mask num vm"
    "map2 (\<lambda>x p. x * (1 - 2 * p) + p) (take_mask h vm) (take_mask pat vm) = take_mask den vm"
    unfolding num_def den_def using assms lvm by (simp_all add: take_mask_map2)
  have q: "map2 np_true_divide (take_mask num vm) (take_mask den vm)
      = take_mask (map2 np_true_divide num den) vm"
    using assms lvm by (simp add: take_mask_map2 num_def den_def)
  have "put_mask (map Finite (full_like h INDEX_NODATA)) vm
          (take_mask (map2 np_true_divide num den) vm)
      = map2 (\<lambda>x p. if x = INDEX_NODATA \<or> p = INDEX_NODATA then Finite INDEX_NODATA
                       else np_true_divide (p * (1 - x)) (x * (1 - 2 * p) + p)) h pat"
    using assms lvm
    by (intro nth_equalityI)
       (auto simp: nth_put_take_mask num_def den_def vm_def and_mask_def ne_mask_def
          full_like_def)
  then show ?thesis
    using assms by (simp add: OnFarmPollinatorAbundance_def Let_def tm q vm_def [symmetric])
qed

lemma OnFarmPollinatorAbundance_zero_divisor:
  "OnFarmPollinatorAbundance [-1, 0] [1/2, 0] = Inr [Finite (-1), NonFinite]"
  by (simp add: OnFarmPollinatorAbundance_pixelwise INDEX_NODATA_def np_true_divide_def)

section \<open>Farm yield: total and wild yield are clamped\<close>

text \<open>
  Claim C3. At every pixel where the managed-pollinator input \<open>mp\<close> is not no-data, the
  total-yield kernel returns \<open>min (mp + FP) 1\<close> and the wild-yield kernel returns
  \<open>max 0 (PYT - mp)\<close>. For \<open>mp = 0.9\<close> and \<open>FP = 0.3\<close> the total yield is \<open>1\<close>; for
  \<open>PYT = 1\<close> and \<open>mp = 0.9\<close> the wild yield is \<open>0.1\<close>.
\<close>

theorem farm_yield_clamp:
  assumes "length FP_array = length mp_array"
    and "length PYT_array = length mp_array"
    and "i < length mp_array"
    and "mp_array ! i \<noteq> INDEX_NODATA"
  shows "(\<exists>r. PYTOp mp_array FP_array = Inr r \<and> length r = length mp_array
            \<and> r ! i = min (mp_array ! i + FP_array ! i) 1)
       \<and> (\<exists>r. PYWOp mp_array PYT_array = Inr r \<and> length r = length mp_array
            \<and> r ! i = max 0 (PYT_array ! i - mp_array ! i))
       \<and> PYTOp [9/10] [3/10] = Inr [1]
       \<and> PYWOp [9/10] [1] = Inr [1/10]"
proof -
  have "PYTOp [9/10] [3/10] = Inr [1]"
    by (simp add: PYTOp_pixelwise INDEX_NODATA_def)
  moreover have "PYWOp [9/10] [1] = Inr [1/10]"
    by (simp add: PYWOp_pixelwise INDEX_NODATA_def)
  ultimately show ?thesis
    using assms by (simp add: PYTOp_pixelwise PYWOp_pixelwise)
qed

theorem farm_yield_clamp_witness:
  "length [3/10::real] = length [9/10::real] \<and> length [1::real] = length [9/10::real]
   \<and> (0::nat) < length [9/10::real] \<and> [9/10] ! 0 \<noteq> INDEX_NODATA
   \<and> (\<exists>r. PYTOp [9/10] [3/10] = Inr r \<and> r ! 0 = 1)
   \<and> (\<exists>r. PYWOp [9/10] [1] = Inr r \<and> r ! 0 = 1/10)"
  using farm_yield_clamp [of "[3/10]" "[9/10]" "[1]" 0]
  by (simp add: INDEX_NODATA_def)

section \<open>No-data comes from the reference input\<close>

text \<open>
  Claim C1, as stated, fails for the three kernels it names: each of them masks its
  first input only, and a no-data pixel in a later input enters the formula as the
  number \<open>-1\<close>. The total-yield kernel with \<open>mp = 0.5\<close> and \<open>FP\<close> no-data returns
  \<open>-0.5\<close>; the pollinator-supply-index kernel with abundance \<open>0.5\<close>, floral
  resources \<open>0.5\<close> and habitat nesting no-data returns \<open>-0.25\<close>; the
  pollinator-abundance kernel returns \<open>-1.5\<close> when floral resources are no-data and
  \<open>-0.5\<close> when the convolved supply is no-data.
\<close>

theorem nodata_any_input_counterexample:
  "PYTOp [1/2] [INDEX_NODATA] = Inr [-1/2]
   \<and> PollinatorSupplyIndexOp (1/2) [1/2] [INDEX_NODATA] = Inr [-1/4]
   \<and> PollinatorSupplyOp [1/2] [INDEX_NODATA] [3] = Inr [-3/2]
   \<and> PollinatorSupplyOp [1/2] [1] [INDEX_NODATA] = Inr [-1/2]
   \<and> [INDEX_NODATA] ! 0 = INDEX_NODATA
   \<and> [-1/2] ! 0 \<noteq> INDEX_NODATA \<and> [-1/4] ! 0 \<noteq> INDEX_NODATA
   \<and> [-3/2] ! 0 \<noteq> INDEX_NODATA"
  by (simp add: PYTOp_pixelwise PollinatorSupplyIndexOp_pixelwise PollinatorSupplyOp_pixelwise
      INDEX_NODATA_def)

text \<open>
  Claim C1, amended. Every array kernel other than the raster sum returns no-data at
  every pixel where its reference input holds no-data: either input for the on-farm
  pollinator-abundance kernel, where the claim holds as stated; the first input array
  for the total-yield, wild-yield, pollinator-supply-index, pollinator-abundance and
  raster-times-scalar kernels (\<open>mp\<close>, \<open>mp\<close>, the first array argument, foraged
  flowers, the raster); the first substrate array for the habitat-nesting kernel.
\<close>

theorem nodata_from_reference_input:
  assumes "length b = length a" and "length c = length a" and "i < length a"
    and "arrays \<noteq> []" and "\<forall>x \<in> set arrays. length x = length (hd arrays)"
    and "length ns = length arrays" and "j < length (hd arrays)"
  shows "((a ! i = INDEX_NODATA \<or> b ! i = INDEX_NODATA) \<longrightarrow>
            (\<exists>r. OnFarmPollinatorAbundance a b = Inr r \<and> length r = length a
                \<and> r ! i = Finite INDEX_NODATA))
       \<and> (a ! i = INDEX_NODATA \<longrightarrow>
            (\<exists>r. PYTOp a b = Inr r \<and> length r = length a \<and> r ! i = INDEX_NODATA)
          \<and> (\<exists>r. PYWOp a b = Inr r \<and> length r = length a \<and> r ! i = INDEX_NODATA)
          \<and> (\<exists>r. PollinatorSupplyIndexOp sa a b = Inr r \<and> length r = length a
                 \<and> r ! i = INDEX_NODATA)
          \<and> (\<exists>r. PollinatorSupplyOp a b c = Inr r \<and> length r = length a
                 \<and> r ! i = INDEX_NODATA)
          \<and> (\<exists>r. MultByScalar sa a = Inr r \<and> length r = length a
                 \<and> r ! i = INDEX_NODATA))
       \<and> (hd arrays ! j = INDEX_NODATA \<longrightarrow>
            (\<exists>r. max_op ns arrays = Inr r \<and> length r = length (hd arrays)
                \<and> r ! j = INDEX_NODATA))"
proof -
  have farm: "(a ! i = INDEX_NODATA \<or> b ! i = INDEX_NODATA) \<longrightarrow>
            (\<exists>r. OnFarmPollinatorAbundance a b = Inr r \<and> length r = length a
                \<and> r ! i = Finite INDEX_NODATA)"
    using assms(1,3) by (auto simp: OnFarmPollinatorAbundance_pixelwise)
  have first: "a ! i = INDEX_NODATA \<longrightarrow>
            (\<exists>r. PYTOp a b = Inr r \<and> length r = length a \<and> r ! i = INDEX_NODATA)
          \<and> (\<exists>r. PYWOp a b = Inr r \<and> length r = length a \<and> r ! i = INDEX_NODATA)
          \<and> (\<exists>r. PollinatorSupplyIndexOp sa a b = Inr r \<and> length r = length a
                 \<and> r ! i = INDEX_NODATA)
          \<and> (\<exists>r. PollinatorSupplyOp a b c = Inr r \<and> length r = length a
                 \<and> r ! i = INDEX_NODATA)
          \<and> (\<exists>r. MultByScalar sa a = Inr r \<and> length r = length a
                 \<and> r ! i = INDEX_NODATA)"
    using assms(1,2,3)
    by (simp add: PYTOp_pixelwise PYWOp_pixelwise PollinatorSupplyIndexOp_pixelwise
        PollinatorSupplyOp_pixelwise MultByScalar_pixelwise)
  have nest: "hd arrays ! j = INDEX_NODATA \<longrightarrow>
            (\<exists>r. max_op ns arrays = Inr r \<and> length r = length (hd arrays)
                \<and> r ! j = INDEX_NODATA)"
    using max_op_pixel [OF assms(4,5,6,7)] by auto
  show ?thesis using farm first nest by blast
qed

theorem nodata_from_reference_input_witness:
  "(\<exists>r. OnFarmPollinatorAbundance [INDEX_NODATA, 1/2] [3/10, INDEX_NODATA] = Inr r
        \<and> r ! 0 = Finite INDEX_NODATA \<and> r ! 1 = Finite INDEX_NODATA)
   \<and> (\<exists>r. PYTOp [INDEX_NODATA, 1/2] [3/10, INDEX_NODATA] = Inr r \<and> r ! 0 = INDEX_NODATA)
   \<and> (\<exists>r. PollinatorSupplyIndexOp (1/2) [INDEX_NODATA, 1/2] [3/10, INDEX_NODATA] = Inr r
          \<and> r ! 0 = INDEX_NODATA)
   \<and> (\<exists>r. PollinatorSupplyOp [INDEX_NODATA, 1/2] [3/10, INDEX_NODATA] [1, 1] = Inr r
          \<and> r ! 0 = INDEX_NODATA)
   \<and> (\<exists>r. max_op [1/2, 1] [[INDEX_NODATA, 1/2], [3/10, INDEX_NODATA]] = Inr r
          \<and> r ! 0 = INDEX_NODATA)"
  using nodata_from_reference_input
      [of "[3/10, INDEX_NODATA]" "[INDEX_NODATA, 1/2]" "[1, 1]" 0
          "[[INDEX_NODATA, 1/2], [3/10, INDEX_NODATA]]" "[1/2, 1]" 0 "1/2"]
    nodata_from_reference_input
      [of "[3/10, INDEX_NODATA]" "[INDEX_NODATA, 1/2]" "[1, 1]" 1
          "[[INDEX_NODATA, 1/2], [3/10, INDEX_NODATA]]" "[1/2, 1]" 0 "1/2"]
  by auto

section \<open>Pollinator abundance never divides by zero\<close>

text \<open>
  Claim C2. At every pixel where foraged flowers is not no-data, the
  pollinator-abundance kernel returns \<open>foraged / FR * convolved_PS\<close> when \<open>FR\<close> is not
  zero and exactly \<open>0\<close> when \<open>FR\<close> is zero. The divisors the kernel hands to the
  division contain no zero, so the kernel returns an array and not a division failure,
  and the zero case is neither an error nor no-data.
\<close>

theorem pollinator_abundance_zero_safe:
  assumes "length fr = length f" and "length c = length f"
    and "i < length f" and "f ! i \<noteq> INDEX_NODATA"
  shows "(\<exists>r. PollinatorSupplyOp f fr c = Inr r \<and> length r = length f
            \<and> r ! i = (if fr ! i = 0 then 0 else f ! i / fr ! i * c ! i)
            \<and> (fr ! i = 0 \<longrightarrow> r ! i \<noteq> INDEX_NODATA))
       \<and> 0 \<notin> set (take_mask fr (pa_result_mask f fr))
       \<and> np_divide (take_mask f (pa_result_mask f fr)) (take_mask fr (pa_result_mask f fr))
           \<noteq> Inl ZeroDivisor"
proof -
  have nz: "0 \<notin> set (take_mask fr (pa_result_mask f fr))"
    using assms(1) by (rule pa_divisors_nonzero)
  then have "np_divide (take_mask f (pa_result_mask f fr))
      (take_mask fr (pa_result_mask f fr)) \<noteq> Inl ZeroDivisor"
    by (simp add: np_divide_def)
  moreover have "\<exists>r. PollinatorSupplyOp f fr c = Inr r \<and> length r = length f
            \<and> r ! i = (if fr ! i = 0 then 0 else f ! i / fr ! i * c ! i)
            \<and> (fr ! i = 0 \<longrightarrow> r ! i \<noteq> INDEX_NODATA)"
    using assms by (simp add: PollinatorSupplyOp_pixelwise INDEX_NODATA_def)
  ultimately show ?thesis using nz by simp
qed

theorem pollinator_abundance_zero_safe_witness:
  "(\<exists>r. PollinatorSupplyOp [1/2, 1/2] [0, 1/4] [3, 3] = Inr r \<and> r ! 0 = 0)
   \<and> (\<exists>r. PollinatorSupplyOp [1/2, 1/2] [0, 1/4] [3, 3] = Inr r \<and> r ! 1 = 6)"
  using pollinator_abundance_zero_safe [of "[0, 1/4]" "[1/2, 1/2]" "[3, 3]" 0]
    pollinator_abundance_zero_safe [of "[0, 1/4]" "[1/2, 1/2]" "[3, 3]" 1]
  by (auto simp: INDEX_NODATA_def)

section \<open>The habitat nesting index is a maximum\<close>

text \<open>
  The constructor lists the raster paths and the suitability scalars in the same
  order, so the \<open>n\<close>-th scalar scales the \<open>n\<close>-th substrate raster.
\<close>

lemma habitat_nesting_init_aligned:
  assumes "CalculateHabitatNestingIndex_init substrate_path_map species_substrate_index_map
             target = Inr c"
    and "n < length (sorted_keys substrate_path_map)"
  shows "length (substrate_path_list c) = length (sorted_keys substrate_path_map)
       \<and> length (species_substrate_suitability_index_array c)
           = length (sorted_keys substrate_path_map)
       \<and> map_of substrate_path_map (sorted_keys substrate_path_map ! n)
           = Some (substrate_path_list c ! n)
       \<and> map_of species_substrate_index_map (sorted_keys substrate_path_map ! n)
           = Some (species_substrate_suitability_index_array c ! n)"
proof -
  let ?ids = "sorted_keys substrate_path_map"
  have none_missing: "filter (\<lambda>i. map_of species_substrate_index_map i = None) ?ids = []"
    using assms(1)
    by (auto simp: CalculateHabitatNestingIndex_init_def Let_def split: list.splits)
  have c: "c = \<lparr> substrate_path_list = map (\<lambda>i. the (map_of substrate_path_map i)) ?ids,
           species_substrate_suitability_index_array =
             map (\<lambda>i. the (map_of species_substrate_index_map i)) ?ids,
           target_habitat_nesting_index_path = target \<rparr>"
    using assms(1)
    by (auto simp: CalculateHabitatNestingIndex_init_def Let_def split: list.splits if_splits)
  have mem: "?ids ! n \<in> set ?ids" using assms(2) by simp
  then have "?ids ! n \<in> fst ` set substrate_path_map"
    by (simp add: sorted_keys_def dict_keys_def)
  then have p: "map_of substrate_path_map (?ids ! n) \<noteq> None"
    by (simp add: map_of_eq_None_iff)
  have s: "map_of species_substrate_index_map (?ids ! n) \<noteq> None"
    using none_missing mem by (auto simp: filter_empty_conv)
  show ?thesis using p s assms(2) by (auto simp: c)
qed

text \<open>
  Claim C4. At every pixel the habitat-nesting kernel returns the maximum over the
  substrates \<open>n\<close> of \<open>N(x, n) * ns(s, n)\<close>, except that a pixel which is no-data in the
  first (reference) substrate array is no-data. For substrate values \<open>0.2\<close> and \<open>0.8\<close>
  with scalars \<open>0.5\<close> and \<open>1\<close> the result is \<open>0.8\<close>.
\<close>

theorem habitat_nesting_index_max:
  assumes "arrays \<noteq> []"
    and "\<forall>a \<in> set arrays. length a = length (hd arrays)"
    and "length ns = length arrays"
    and "i < length (hd arrays)"
  shows "(\<exists>r. max_op ns arrays = Inr r \<and> length r = length (hd arrays)
            \<and> r ! i = (if hd arrays ! i = INDEX_NODATA then INDEX_NODATA
                       else Max ((\<lambda>n. arrays ! n ! i * ns ! n) ` {..<length arrays})))
       \<and> max_op [1/2, 1] [[2/10], [8/10]] = Inr [8/10]"
proof -
  have "max_op [1/2, 1] [[2/10], [8/10]] = Inr [8/10]"
    by (simp add: max_op_def put_const_def eq_mask_def INDEX_NODATA_def)
  then show ?thesis
    using max_op_pixel [OF assms] by simp
qed

theorem habitat_nesting_index_max_witness:
  "\<exists>r. max_op [1/2, 1] [[2/10, 1], [8/10, 1/10]] = Inr r \<and> r ! 0 = 8/10"
  using habitat_nesting_index_max [of "[[2/10, 1], [8/10, 1/10]]" "[1/2, 1]" 0]
  by (auto simp: INDEX_NODATA_def lessThan_Suc)

section \<open>The raster sum skips no-data\<close>

text \<open>
  Claim C5, as stated, fails in its "only if": the sum of inputs that are not no-data
  can itself be the sentinel. Two inputs \<open>-0.5\<close> sum to \<open>-1\<close>.
\<close>

theorem raster_sum_sentinel_counterexample:
  "SumRasters [[-1/2], [-1/2]] = Inr [INDEX_NODATA]
   \<and> [-1/2] ! 0 \<noteq> INDEX_NODATA"
  by (simp add: SumRasters_def sum_step_def Let_def put_const_def not_mask_def or_mask_def
      ne_mask_def take_mask_def full_like_def INDEX_NODATA_def)

text \<open>
  Claim C5, amended. On a non-empty list of equal-shaped arrays the raster sum returns,
  at each pixel, the sentinel when every input is no-data there and otherwise the sum
  of the inputs that are not no-data; when the inputs that are not no-data are not
  negative at the pixel, the output is the sentinel only if every input is no-data.
\<close>

theorem raster_sum_ignores_nodata:
  assumes "array_list \<noteq> []"
    and "\<forall>a \<in> set array_list. length a = length (hd array_list)"
    and "i < length (hd array_list)"
  shows "\<exists>r. SumRasters array_list = Inr r \<and> length r = length (hd array_list)
            \<and> r ! i = (if \<forall>a \<in> set array_list. a ! i = INDEX_NODATA then INDEX_NODATA
                       else valid_sum array_list i)
            \<and> ((\<forall>a \<in> set array_list. a ! i = INDEX_NODATA \<or> 0 \<le> a ! i) \<longrightarrow>
                 (r ! i = INDEX_NODATA \<longleftrightarrow> (\<forall>a \<in> set array_list. a ! i = INDEX_NODATA)))"
proof -
  obtain r where r: "SumRasters array_list = Inr r" "length r = length (hd array_list)"
    "r ! i = (if \<forall>a \<in> set array_list. a ! i = INDEX_NODATA then INDEX_NODATA
              else valid_sum array_list i)"
    using SumRasters_pixel [OF assms] by blast
  have "0 \<le> valid_sum array_list i"
    if "\<forall>a \<in> set array_list. a ! i = INDEX_NODATA \<or> 0 \<le> a ! i"
    unfolding valid_sum_def using that by (intro sum_list_nonneg) auto
  then have "(\<forall>a \<in> set array_list. a ! i = INDEX_NODATA \<or> 0 \<le> a ! i) \<longrightarrow>
      (r ! i = INDEX_NODATA \<longleftrightarrow> (\<forall>a \<in> set array_list. a ! i = INDEX_NODATA))"
    using r(3) by (auto simp: INDEX_NODATA_def)
  then show ?thesis using r by blast
qed

theorem raster_sum_ignores_nodata_witness:
  "\<exists>r. SumRasters [[INDEX_NODATA, 1/4], [INDEX_NODATA, INDEX_NODATA], [INDEX_NODATA, 1/2]]
         = Inr r \<and> r ! 0 = INDEX_NODATA \<and> r ! 1 = 3/4"
  using raster_sum_ignores_nodata
      [of "[[INDEX_NODATA, 1/4], [INDEX_NODATA, INDEX_NODATA], [INDEX_NODATA, 1/2]]" 0]
    raster_sum_ignores_nodata
      [of "[[INDEX_NODATA, 1/4], [INDEX_NODATA, INDEX_NODATA], [INDEX_NODATA, 1/2]]" 1]
  by (auto simp: valid_sum_def INDEX_NODATA_def)

section \<open>Dictionaries and header loops\<close>

lemma map_of_replace:
  "map_of (map (\<lambda>p. if fst p = k then (k, v) else p) d) x
     = (if x = k \<and> k \<in> fst ` set d then Some v else map_of d x)"
proof (induction d)
  case Nil
  then show ?case by simp
next
  case (Cons p d)
  obtain a b where p: "p = (a, b)" by (cases p)
  show ?case
  proof (cases "a = k")
    case True
    then show ?thesis using Cons by (simp add: p)
  next
    case False
    then show ?thesis using Cons by (cases "x = k") (simp_all add: p)
  qed
qed

lemma map_of_dict_set: "map_of (dict_set d k v) = (map_of d)(k \<mapsto> v)"
proof (cases "k \<in> fst ` set d")
  case True
  then show ?thesis by (simp add: dict_set_def map_of_replace fun_eq_iff)
next
  case False
  then have "map_of d k = None" by (simp add: map_of_eq_None_iff)
  then show ?thesis
    using False by (auto simp: dict_set_def fun_eq_iff map_add_def split: option.splits)
qed

lemma map_fst_replace:
  "map fst (map (\<lambda>p. if fst p = k then (k, v) else p) d) = map fst d"
  by (induction d) auto

lemma map_fst_dict_set:
  "map fst (dict_set d k v) = (if k \<in> fst ` set d then map fst d else map fst d @ [k])"
  by (simp add: dict_set_def map_fst_replace)

lemma keys_dict_set: "fst ` set (dict_set d k v) = insert k (fst ` set d)"
proof -
  have "set (map fst (dict_set d k v)) = insert k (set (map fst d))"
    unfolding map_fst_dict_set by auto
  then show ?thesis by simp
qed

lemma distinct_dict_set:
  "distinct (map fst d) \<Longrightarrow> distinct (map fst (dict_set d k v))"
  unfolding map_fst_dict_set by auto

lemma keys_set_entry: "fst ` set (set_entry d n k v) = insert n (fst ` set d)"
  by (simp add: set_entry_def keys_dict_set)

lemma distinct_set_entry:
  "distinct (map fst d) \<Longrightarrow> distinct (map fst (set_entry d n k v))"
  by (simp add: set_entry_def distinct_dict_set)

lemma entry_tables_set_entry:
  "entry_tables (set_entry d n k v) m
     = (if m = n then insert k (entry_tables d n) else entry_tables d m)"
  by (auto simp: entry_tables_def set_entry_def map_of_dict_set keys_dict_set
      split: option.splits)

lemma discovered_Nil [simp]: "discovered pat [] name = False"
  by (simp add: discovered_def)

lemma discovered_Cons:
  "discovered pat (h # hs) name = (matches pat h name \<or> discovered pat hs name)"
  by (auto simp: discovered_def matches_def split: option.splits)

lemma header_step_fst:
  "fst (header_step tbl sp subp h maps)
     = (case re_match sp h of None \<Rightarrow> fst maps
        | Some (season, matched) \<Rightarrow> set_entry (fst maps) season tbl matched)"
  by (simp add: header_step_def Let_def)

lemma header_step_snd:
  "snd (header_step tbl sp subp h maps)
     = (case re_match subp h of None \<Rightarrow> snd maps
        | Some (substrate, matched) \<Rightarrow> set_entry (snd maps) substrate tbl matched)"
  by (simp add: header_step_def Let_def)

lemma recorded_step:
  assumes "distinct (map fst m)"
  shows "recorded tbl pat [h] m
           (case re_match pat h of None \<Rightarrow> m
            | Some (name, matched) \<Rightarrow> set_entry m name tbl matched)"
proof (cases "re_match pat h")
  case None
  then show ?thesis
    using assms by (simp add: recorded_def discovered_Cons matches_def)
next
  case (Some p)
  obtain name matched where p: "p = (name, matched)" by (cases p)
  have m: "matches pat h n = (n = name)" for n
    using Some p by (auto simp: matches_def)
  show ?thesis
    using assms Some p
    by (auto simp: recorded_def discovered_Cons m keys_set_entry distinct_set_entry
        entry_tables_set_entry)
qed

lemma recorded_trans:
  assumes "recorded tbl pat [h] m0 m1" "recorded tbl pat hs m1 m2"
  shows "recorded tbl pat (h # hs) m0 m2"
  using assms unfolding recorded_def discovered_Cons [of pat h hs]
  by (auto simp: discovered_Cons)

lemma fold_header_step:
  assumes "distinct (map fst (fst maps))" "distinct (map fst (snd maps))"
  shows "recorded tbl sp hs (fst maps) (fst (fold (header_step tbl sp subp) hs maps))
       \<and> recorded tbl subp hs (snd maps) (snd (fold (header_step tbl sp subp) hs maps))"
  using assms
proof (induction hs arbitrary: maps)
  case Nil
  then show ?case by (simp add: recorded_def)
next
  case (Cons h hs)
  let ?m = "header_step tbl sp subp h maps"
  have s1: "recorded tbl sp [h] (fst maps) (fst ?m)"
    unfolding header_step_fst using Cons.prems(1) by (rule recorded_step)
  have s2: "recorded tbl subp [h] (snd maps) (snd ?m)"
    unfolding header_step_snd using Cons.prems(2) by (rule recorded_step)
  have d: "distinct (map fst (fst ?m))" "distinct (map fst (snd ?m))"
    using s1 s2 by (simp_all add: recorded_def)
  from Cons.IH [OF d] s1 s2 show ?case
    by (auto intro: recorded_trans)
qed

lemma header_maps_cases:
  assumes "header_maps inp = Inr maps"
  obtains gh bh where "guild_headers_of inp = Inr gh" "biophysical_headers_of inp = Inr bh"
    "farm inp = None"
    "maps = fold (header_step ''biophysical'' FLORAL_RESOURCES_AVAILABLE_PATTERN
                    NESTING_SUBSTRATE_PATTERN) bh
              (fold (header_step ''guild'' FORAGING_ACTIVITY_RE_PATTERN
                       NESTING_SUITABILITY_PATTERN) gh ([], []))"
  | gh bh fl where "guild_headers_of inp = Inr gh" "biophysical_headers_of inp = Inr bh"
    "farm inp = Some fl"
    "maps = fold (header_step ''biophysical'' FLORAL_RESOURCES_AVAILABLE_PATTERN
                    NESTING_SUBSTRATE_PATTERN) bh
              (fold (header_step ''farm'' FARM_FLORAL_RESOURCES_PATTERN
                       FARM_NESTING_SUBSTRATE_RE_PATTERN) (farm_headers fl)
                 (fold (header_step ''guild'' FORAGING_ACTIVITY_RE_PATTERN
                          NESTING_SUITABILITY_PATTERN) gh ([], [])))"
  using assms
  by (auto simp: header_maps_def bind_err_def Let_def
      split: sum.splits option.splits if_splits)

lemma header_maps_well_recorded:
  assumes "header_maps inp = Inr maps"
  shows "well_recorded inp maps"
  using assms
proof (cases rule: header_maps_cases)
  case (1 gh bh)
  let ?g = "fold (header_step ''guild'' FORAGING_ACTIVITY_RE_PATTERN
                       NESTING_SUITABILITY_PATTERN) gh ([], [])"
  have g: "recorded ''guild'' FORAGING_ACTIVITY_RE_PATTERN gh [] (fst ?g)"
      "recorded ''guild'' NESTING_SUITABILITY_PATTERN gh [] (snd ?g)"
    using fold_header_step [of "([], [])" "''guild''" FORAGING_ACTIVITY_RE_PATTERN gh
        NESTING_SUITABILITY_PATTERN] by simp_all
  then have dg: "distinct (map fst (fst ?g))" "distinct (map fst (snd ?g))"
    by (simp_all add: recorded_def)
  have b: "recorded ''biophysical'' FLORAL_RESOURCES_AVAILABLE_PATTERN bh (fst ?g) (fst maps)"
      "recorded ''biophysical'' NESTING_SUBSTRATE_PATTERN bh (snd ?g) (snd maps)"
    unfolding 1(4) using fold_header_step [OF dg] by simp_all
  show ?thesis
    using g b 1(1,2,3)
    unfolding well_recorded_def recorded_def season_found_in_def substrate_found_in_def
      found_in_def headers_or_none_def entry_tables_def
    by (simp; blast)
next
  case (2 gh bh fl)
  let ?g = "fold (header_step ''guild'' FORAGING_ACTIVITY_RE_PATTERN
                       NESTING_SUITABILITY_PATTERN) gh ([], [])"
  let ?f = "fold (header_step ''farm'' FARM_FLORAL_RESOURCES_PATTERN
                       FARM_NESTING_SUBSTRATE_RE_PATTERN) (farm_headers fl) ?g"
  have g: "recorded ''guild'' FORAGING_ACTIVITY_RE_PATTERN gh [] (fst ?g)"
      "recorded ''guild'' NESTING_SUITABILITY_PATTERN gh [] (snd ?g)"
    using fold_header_step [of "([], [])" "''guild''" FORAGING_ACTIVITY_RE_PATTERN gh
        NESTING_SUITABILITY_PATTERN] by simp_all
  then have dg: "distinct (map fst (fst ?g))" "distinct (map fst (snd ?g))"
    by (simp_all add: recorded_def)
  have f: "recorded ''farm'' FARM_FLORAL_RESOURCES_PATTERN (farm_headers fl) (fst ?g) (fst ?f)"
      "recorded ''farm'' FARM_NESTING_SUBSTRATE_RE_PATTERN (farm_headers fl) (snd ?g) (snd ?f)"
    using fold_header_step [OF dg] by simp_all
  then have df: "distinct (map fst (fst ?f))" "distinct (map fst (snd ?f))"
    by (simp_all add: recorded_def)
  have b: "recorded ''biophysical'' FLORAL_RESOURCES_AVAILABLE_PATTERN bh (fst ?f) (fst maps)"
      "recorded ''biophysical'' NESTING_SUBSTRATE_PATTERN bh (snd ?f) (snd maps)"
    unfolding 2(4) using fold_header_step [OF df] by simp_all
  show ?thesis
    using g f b 2(1,2,3)
    unfolding well_recorded_def recorded_def season_found_in_def substrate_found_in_def
      found_in_def headers_or_none_def entry_tables_def
    by (simp; blast)
qed

lemma found_in_subset:
  "season_found_in inp n \<subseteq> required_tables inp"
  "substrate_found_in inp n \<subseteq> required_tables inp"
  by (auto simp: season_found_in_def substrate_found_in_def found_in_def required_tables_def
      split: option.splits if_splits)

lemma card_required_tables:
  "card (required_tables inp) = (if farm inp \<noteq> None then 3 else 2)"
  by (simp add: required_tables_def)

lemma complete_iff:
  assumes "A \<subseteq> required_tables inp"
  shows "card A = (if farm inp \<noteq> None then 3 else 2) \<longleftrightarrow> A = required_tables inp"
proof
  assume "card A = (if farm inp \<noteq> None then 3 else 2)"
  then have "card A = card (required_tables inp)" by (simp add: card_required_tables)
  moreover have "finite (required_tables inp)" by (simp add: required_tables_def)
  ultimately show "A = required_tables inp" using assms by (simp add: card_subset_eq)
next
  assume "A = required_tables inp"
  then show "card A = (if farm inp \<noteq> None then 3 else 2)"
    by (simp add: card_required_tables)
qed

lemma entry_tables_member:
  "distinct (map fst d) \<Longrightarrow> (n, lt) \<in> set d \<Longrightarrow> entry_tables d n = fst ` set lt"
  by (simp add: entry_tables_def)

lemma length_dict_keys: "length (dict_keys lt) = card (fst ` set lt)"
  by (simp add: dict_keys_def length_remdups_card_conv)

lemma check_entries_None:
  "check_entries fg ch = None
     \<longleftrightarrow> (\<forall>(n, lt) \<in> set ch. length (dict_keys lt) = (if fg then 3 else 2))"
proof -
  let ?P = "\<lambda>(table_type :: string, lookup_table :: (string, string) dict).
              length (dict_keys lookup_table) \<noteq> (if fg then 3 else 2)"
  have "check_entries fg ch = None \<longleftrightarrow> filter ?P ch = []"
    by (auto simp: check_entries_def split: list.splits)
  also have "\<dots> \<longleftrightarrow> (\<forall>(n, lt) \<in> set ch. length (dict_keys lt) = (if fg then 3 else 2))"
    by (auto simp: filter_empty_conv)
  finally show ?thesis .
qed

lemma check_entries_Some:
  assumes "check_entries fg ch = Some e"
  shows "\<exists>n lt. e = IncompleteEntry n lt fg \<and> (n, lt) \<in> set ch
                 \<and> length (dict_keys lt) \<noteq> (if fg then 3 else 2)"
proof -
  let ?P = "\<lambda>(table_type :: string, lookup_table :: (string, string) dict).
              length (dict_keys lookup_table) \<noteq> (if fg then 3 else 2)"
  obtain n lt rest where f: "filter ?P ch = (n, lt) # rest" "e = IncompleteEntry n lt fg"
    using assms by (auto simp: check_entries_def split: list.splits)
  have "(n, lt) \<in> set (filter ?P ch)" using f(1) by simp
  then have "(n, lt) \<in> set ch" "length (dict_keys lt) \<noteq> (if fg then 3 else 2)" by auto
  then show ?thesis using f(2) by blast
qed

lemma parse_header_error:
  "header_maps inp = Inl e \<Longrightarrow> parse_scenario_variables inp = Inl e"
  by (simp add: parse_scenario_variables_def bind_err_def)

lemma parse_entries_error:
  "header_maps inp = Inr maps \<Longrightarrow>
   check_entries (farm inp \<noteq> None) (fst maps @ snd maps) = Some e \<Longrightarrow>
   parse_scenario_variables inp = Inl e"
  by (simp add: parse_scenario_variables_def bind_err_def Let_def)

lemma execute_parse_error:
  "parse_scenario_variables (tables a) = Inl e \<Longrightarrow>
   execute a = \<lparr> raised = Some e, tasks = [] \<rparr>"
  by (simp add: execute_def)

lemma incomplete_entry_reported:
  assumes hm: "header_maps inp = Inr maps"
    and bad: "(season_found_in inp name \<noteq> {} \<and> season_found_in inp name \<noteq> required_tables inp)
            \<or> (substrate_found_in inp name \<noteq> {}
                \<and> substrate_found_in inp name \<noteq> required_tables inp)"
  shows "\<exists>m lt. parse_scenario_variables inp = Inl (IncompleteEntry m lt (farm inp \<noteq> None))
           \<and> (m, lt) \<in> set (fst maps @ snd maps)
           \<and> (fst ` set lt = season_found_in inp m \<or> fst ` set lt = substrate_found_in inp m)
           \<and> fst ` set lt \<noteq> required_tables inp"
proof -
  let ?req = "if farm inp \<noteq> None then 3 else (2::nat)"
  have wr: "well_recorded inp maps" using hm by (rule header_maps_well_recorded)
  have tabs: "fst ` set lt = season_found_in inp m \<or> fst ` set lt = substrate_found_in inp m"
    if "(m, lt) \<in> set (fst maps @ snd maps)" for m lt
    using that wr entry_tables_member [of "fst maps" m lt] entry_tables_member [of "snd maps" m lt]
    by (auto simp: well_recorded_def)
  have len: "length (dict_keys lt) = ?req \<longleftrightarrow> fst ` set lt = required_tables inp"
    if "(m, lt) \<in> set (fst maps @ snd maps)" for m lt
    using tabs [OF that] found_in_subset [of inp m] complete_iff [of "fst ` set lt" inp]
    by (auto simp: length_dict_keys)
  have "\<exists>lt. (name, lt) \<in> set (fst maps @ snd maps) \<and> fst ` set lt \<noteq> required_tables inp"
  proof -
    from bad consider
      (season) "season_found_in inp name \<noteq> {}" "season_found_in inp name \<noteq> required_tables inp"
      | (substrate) "substrate_found_in inp name \<noteq> {}"
          "substrate_found_in inp name \<noteq> required_tables inp"
      by blast
    then show ?thesis
    proof cases
      case season
      then have "name \<in> fst ` set (fst maps)" using wr by (simp add: well_recorded_def)
      then obtain lt where lt: "(name, lt) \<in> set (fst maps)" by auto
      then have "fst ` set lt = season_found_in inp name"
        using wr entry_tables_member [of "fst maps" name lt] by (simp add: well_recorded_def)
      then show ?thesis using lt season(2) by auto
    next
      case substrate
      then have "name \<in> fst ` set (snd maps)" using wr by (simp add: well_recorded_def)
      then obtain lt where lt: "(name, lt) \<in> set (snd maps)" by auto
      then have "fst ` set lt = substrate_found_in inp name"
        using wr entry_tables_member [of "snd maps" name lt] by (simp add: well_recorded_def)
      then show ?thesis using lt substrate(2) by auto
    qed
  qed
  then obtain lt0 where "(name, lt0) \<in> set (fst maps @ snd maps)"
    "length (dict_keys lt0) \<noteq> ?req"
    using len by blast
  then have "check_entries (farm inp \<noteq> None) (fst maps @ snd maps) \<noteq> None"
    unfolding check_entries_None by fastforce
  then obtain e where e: "check_entries (farm inp \<noteq> None) (fst maps @ snd maps) = Some e"
    by auto
  from check_entries_Some [OF e] obtain m lt where
    m: "e = IncompleteEntry m lt (farm inp \<noteq> None)" "(m, lt) \<in> set (fst maps @ snd maps)"
      "length (dict_keys lt) \<noteq> ?req"
    by blast
  have "parse_scenario_variables inp = Inl e" using hm e by (rule parse_entries_error)
  then show ?thesis
    using m tabs [OF m(2)] len [OF m(2)] by blast
qed

section \<open>A name missing from a table stops the run before any task\<close>

text \<open>
  Claim C7, as stated, fails in what the error names. When the guild table has no
  foraging-activity column at all while the biophysical table defines \<open>summer\<close>, the
  error raised is the one of the expected-header loop: it carries the pattern and the
  path of the guild table, not the season.
\<close>

theorem scenario_mismatch_unnamed_counterexample:
  "season_found_in (scenario_of guild_no_season) ''summer'' = {''biophysical''}
   \<and> parse_scenario_variables (scenario_of guild_no_season)
       = Inl (MissingHeader ''guild.csv'' (Capture ''foraging_activity_'' ''_index''))"
proof -
  have "discovered FORAGING_ACTIVITY_RE_PATTERN
          (headers_or_none (guild_headers_of (scenario_of guild_no_season))) ''summer'' = False"
    by code_simp
  moreover have "discovered FLORAL_RESOURCES_AVAILABLE_PATTERN
          (headers_or_none (biophysical_headers_of (scenario_of guild_no_season))) ''summer''"
    by code_simp
  moreover have "farm (scenario_of guild_no_season) = None"
    by (simp add: scenario_of_def)
  ultimately have "season_found_in (scenario_of guild_no_season) ''summer'' = {''biophysical''}"
    by (simp add: season_found_in_def found_in_def)
  moreover have "parse_scenario_variables (scenario_of guild_no_season)
       = Inl (MissingHeader ''guild.csv'' (Capture ''foraging_activity_'' ''_index''))"
    by code_simp
  ultimately show ?thesis by simp
qed

text \<open>
  Claim C7, amended. When a season or substrate name is discovered in some table but
  not in every required table, scenario parsing raises, and \<open>execute\<close> ends with that
  exception and no task registered. When the header checks before the cross-table
  check pass, the exception is that of the cross-table check: it names a season or
  substrate whose entries are incomplete and carries the tables in which the name
  was found.
\<close>

theorem scenario_mismatch_raises:
  assumes "(season_found_in inp name \<noteq> {}
              \<and> season_found_in inp name \<noteq> required_tables inp)
         \<or> (substrate_found_in inp name \<noteq> {}
              \<and> substrate_found_in inp name \<noteq> required_tables inp)"
  shows "(\<exists>e. parse_scenario_variables inp = Inl e
             \<and> execute (a\<lparr>tables := inp\<rparr>) = \<lparr> raised = Some e, tasks = [] \<rparr>)
       \<and> (\<forall>maps. header_maps inp = Inr maps \<longrightarrow>
            (\<exists>m lt. parse_scenario_variables inp
                       = Inl (IncompleteEntry m lt (farm inp \<noteq> None))
                \<and> (m, lt) \<in> set (fst maps @ snd maps)
                \<and> (fst ` set lt = season_found_in inp m
                     \<or> fst ` set lt = substrate_found_in inp m)
                \<and> fst ` set lt \<noteq> required_tables inp))"
proof -
  have rep: "\<forall>maps. header_maps inp = Inr maps \<longrightarrow>
            (\<exists>m lt. parse_scenario_variables inp
                       = Inl (IncompleteEntry m lt (farm inp \<noteq> None))
                \<and> (m, lt) \<in> set (fst maps @ snd maps)
                \<and> (fst ` set lt = season_found_in inp m
                     \<or> fst ` set lt = substrate_found_in inp m)
                \<and> fst ` set lt \<noteq> required_tables inp)"
    using incomplete_entry_reported [OF _ assms] by blast
  have "\<exists>e. parse_scenario_variables inp = Inl e"
  proof (cases "header_maps inp")
    case (Inl e)
    then show ?thesis using parse_header_error by blast
  next
    case (Inr maps)
    then show ?thesis using rep by blast
  qed
  then obtain e where e: "parse_scenario_variables inp = Inl e" by blast
  then have "execute (a\<lparr>tables := inp\<rparr>) = \<lparr> raised = Some e, tasks = [] \<rparr>"
    using execute_parse_error [of "a\<lparr>tables := inp\<rparr>" e] by simp
  then show ?thesis using e rep by blast
qed

theorem scenario_mismatch_raises_witness:
  "parse_scenario_variables (scenario_of guild_spring_only)
     = Inl (IncompleteEntry ''summer'' [(''biophysical'', ''floral_resources_summer_index'')] False)
   \<and> tasks (execute (run_of (scenario_of guild_spring_only))) = []"
proof -
  let ?inp = "scenario_of guild_spring_only"
  have "discovered FORAGING_ACTIVITY_RE_PATTERN
          (headers_or_none (guild_headers_of ?inp)) ''summer'' = False"
    by code_simp
  moreover have "discovered FLORAL_RESOURCES_AVAILABLE_PATTERN
          (headers_or_none (biophysical_headers_of ?inp)) ''summer''"
    by code_simp
  moreover have nf: "farm ?inp = None" by (simp add: scenario_of_def)
  ultimately have found: "season_found_in ?inp ''summer'' = {''biophysical''}"
    by (simp add: season_found_in_def found_in_def)
  have req: "required_tables ?inp = {''guild'', ''biophysical''}"
    using nf by (simp add: required_tables_def)
  have bad: "(season_found_in ?inp ''summer'' \<noteq> {}
              \<and> season_found_in ?inp ''summer'' \<noteq> required_tables ?inp)
         \<or> (substrate_found_in ?inp ''summer'' \<noteq> {}
              \<and> substrate_found_in ?inp ''summer'' \<noteq> required_tables ?inp)"
    unfolding found req by auto
  define spring_lt where "spring_lt = [(''guild'', ''foraging_activity_spring_index''),
                     (''biophysical'', ''floral_resources_spring_index'')]"
  define summer_lt where "summer_lt = [(''biophysical'', ''floral_resources_summer_index'')]"
  define cavity_lt where "cavity_lt = [(''guild'', ''nesting_suitability_cavity_index''),
                     (''biophysical'', ''nesting_cavity_availability_index'')]"
  have complete: "fst ` set spring_lt = required_tables ?inp"
    "fst ` set cavity_lt = required_tables ?inp"
    unfolding req spring_lt_def cavity_lt_def by simp_all
  have hm: "header_maps ?inp
      = Inr ([(''spring'', spring_lt), (''summer'', summer_lt)], [(''cavity'', cavity_lt)])"
    unfolding spring_lt_def summer_lt_def cavity_lt_def by code_simp
  have t: "run_of ?inp \<lparr>tables := ?inp\<rparr> = run_of ?inp"
    by (simp add: run_of_def)
  note inst = scenario_mismatch_raises [OF bad, of "run_of ?inp"]
  from inst [THEN conjunct2, rule_format, OF hm] obtain m lt where
    m: "parse_scenario_variables ?inp = Inl (IncompleteEntry m lt (farm ?inp \<noteq> None))"
      "(m, lt) \<in> set (fst ([(''spring'', spring_lt), (''summer'', summer_lt)],
                            [(''cavity'', cavity_lt)])
                     @ snd ([(''spring'', spring_lt), (''summer'', summer_lt)],
                            [(''cavity'', cavity_lt)]))"
      "fst ` set lt \<noteq> required_tables ?inp"
    by blast
  have "lt = spring_lt \<or> (m = ''summer'' \<and> lt = summer_lt) \<or> lt = cavity_lt"
    using m(2) by auto
  then have ml: "m = ''summer'' \<and> lt = summer_lt"
    using m(3) complete by blast
  from inst [THEN conjunct1] obtain e where
    e: "parse_scenario_variables ?inp = Inl e"
      "execute (run_of ?inp\<lparr>tables := ?inp\<rparr>) = \<lparr> raised = Some e, tasks = [] \<rparr>"
    by blast
  have "tasks (execute (run_of ?inp)) = []"
    using e(2) unfolding t by simp
  then show ?thesis using m(1) ml nf unfolding summer_lt_def by simp
qed

section \<open>Validation raises on a value that is None\<close>

text \<open>
  Claim C10 says that a missing key is the only condition under which \<open>validate\<close>
  raises. With every key present and \<^verbatim>\<open>farm_vector_path\<close> set to \<^verbatim>\<open>None\<close> the function
  records the key in \<^verbatim>\<open>no_value_list\<close> and then calls \<^verbatim>\<open>os.path.exists(None)\<close>, which
  raises \<^verbatim>\<open>TypeError\<close>, whatever the file system holds.
\<close>

theorem validate_none_value_raises:
  "validate fs [(''workspace_dir'', PyStr ''w''), (''landcover_raster_path'', PyStr ''l''),
      (''guild_table_path'', PyStr ''g''), (''landcover_biophysical_table_path'', PyStr ''b''),
      (''farm_vector_path'', PyNone)] None = Inl ArgsTypeError"
  by (simp add: validate_def Let_def selected_def exists_step_def bind_err_def args_get_def
      os_path_exists_def split: sum.splits)

text \<open>The first half of the claim holds: a missing required key raises \<^verbatim>\<open>KeyError\<close>.\<close>

lemma validate_missing_key_raises:
  assumes "key \<in> set [''workspace_dir'', ''landcover_raster_path'', ''guild_table_path'',
             ''landcover_biophysical_table_path'', ''farm_vector_path'']"
    and "map_of args key = None"
  shows "\<exists>msg. validate fs args None = Inl (ArgsKeyError msg)"
proof -
  define keys where "keys = [''workspace_dir'', ''landcover_raster_path'', ''guild_table_path'',
             ''landcover_biophysical_table_path'', ''farm_vector_path'']"
  have "filter (selected None) keys = keys" by (simp add: selected_def)
  moreover have "key \<in> set keys" using assms(1) keys_def by simp
  ultimately have "key \<in> set (filter (\<lambda>key. map_of args key = None)
      (filter (selected None) keys))"
    using assms(2) by simp
  then have "length (filter (\<lambda>key. map_of args key = None) (filter (selected None) keys)) > 0"
    by (metis length_pos_if_in_set)
  then show ?thesis
    unfolding validate_def Let_def keys_def [symmetric] by simp
qed

section \<open>The kernel raster is keyed by the flight distance\<close>

text \<open>
  The rounding to a double, evaluated: a positive real that \<open>2 ^ n\<close> scales into the
  range of the significand is rounded there. The quotient \<open>60 / 30\<close> is exact; the
  quotient \<open>5 / 2000000\<close> is not, its double lies above the tie \<open>0.0000025\<close> and
  \<^verbatim>\<open>%f\<close> prints it as \<open>0.000003\<close>.
\<close>

lemma scale_up_normal:
  "0 < x \<Longrightarrow> 2 ^ 52 \<le> 2 ^ n * x \<Longrightarrow> 2 ^ n * x < 2 ^ 53
     \<Longrightarrow> scale_up x e = (2 ^ n * x, e - int n)"
proof (induction n arbitrary: x e)
  case 0
  then show ?case by (simp add: scale_up.simps [of x e])
next
  case (Suc n)
  have "(1::real) \<le> 2 ^ n" by simp
  then have "x \<le> 2 ^ n * x" using Suc.prems(1) by (simp add: mult_le_cancel_right1)
  moreover have "2 ^ n * x < 2 ^ 52" using Suc.prems(3) by (simp add: algebra_simps)
  ultimately have "x < 2 ^ 52" by linarith
  then have "scale_up x e = scale_up (2 * x) (e - 1)"
    using Suc.prems(1) by (simp add: scale_up.simps [of x e])
  also have "\<dots> = (2 ^ n * (2 * x), e - 1 - int n)"
    using Suc.prems by (intro Suc.IH) simp_all
  finally show ?case by simp
qed

lemma scale_down_normal: "x < 2 ^ 53 \<Longrightarrow> scale_down x e = (x, e)"
  by (simp add: scale_down.simps [of x e])

lemma to_double_normal:
  assumes "0 < x" "2 ^ 52 \<le> 2 ^ n * x" "2 ^ n * x < 2 ^ 53"
  shows "to_double x = of_int (round_half_even (2 ^ n * x)) / 2 ^ n"
proof -
  have pos: "\<bar>x\<bar> = x" using assms(1) by simp
  have up: "scale_up x 0 = (2 ^ n * x, - int n)"
    using assms scale_up_normal [of x n 0] by simp
  have down: "scale_down (2 ^ n * x) (- int n) = (2 ^ n * x, - int n)"
    using assms(3) by (rule scale_down_normal)
  show ?thesis
    unfolding to_double_def Let_def pos up fst_conv snd_conv down
    using assms(1) by (cases "n = 0") simp_all
qed


lemma to_double_above_tie: "to_double (5 / 2000000) = 5902958103587057 / 2 ^ 71"
proof -
  have "round_half_even (2 ^ 71 * (5 / 2000000)) = 5902958103587057"
    by (simp add: round_half_even_def Let_def)
  then show ?thesis using to_double_normal [of "5 / 2000000" 71] by simp
qed

lemma fmt_f_above_tie: "fmt_f (to_double (5 / 2000000)) = ''0.000003''"
proof -
  have "round_half_even (\<bar>5902958103587057 / 2 ^ 71\<bar> * 1000000) = 3"
    by (simp add: round_half_even_def Let_def)
  moreover have "dec_digits 3 = ''3''" "dec_digits 0 = ''0''"
    by (simp_all add: dec_digits.simps [of 3] dec_digits.simps [of 0])
  moreover have "replicate 5 (CHR ''0'') = ''00000''"
    by (simp add: eval_nat_numeral)
  ultimately show ?thesis
    unfolding to_double_above_tie by (simp add: fmt_f_def Let_def)
qed




section \<open>The lists of names are sorted\<close>

lemma parse_guild_two: "parse_scenario_variables (scenario_of guild_two) = Inr two_species"
  by code_simp

lemma parse_success:
  assumes "parse_scenario_variables inp = Inr r"
  obtains maps where "header_maps inp = Inr maps"
    "build_result inp (fst maps) (snd maps) = Inr r"
  using assms
  by (auto simp: parse_scenario_variables_def bind_err_def Let_def
      split: sum.splits option.splits)

lemma bind_err_Inr:
  "bind_err m f = Inr y \<longleftrightarrow> (\<exists>x. m = Inr x \<and> f x = Inr y)"
  by (cases m) (simp_all add: bind_err_def)

lemma build_result_fields:
  assumes "build_result inp s2h sub2h = Inr r"
  shows "season_list r = sorted_keys s2h"
    and "substrate_list r = sorted_keys sub2h"
    and "species_list r = sorted_keys (guild_table inp)"
    and "species_abundances (guild_table inp) (species_list r) = Inr (species_abundance r)"
    and "species_foraging_activities (guild_table inp) (season_list r) (species_list r)
           = Inr (species_foraging_activity r)"
  using assms
  unfolding build_result_def Let_def bind_err_Inr
  by auto

lemma sorted_keys_props:
  "sorted (sorted_keys d)" "distinct (sorted_keys d)" "set (sorted_keys d) = fst ` set d"
  by (simp_all add: sorted_keys_def dict_keys_def)

lemma parse_lists:
  assumes "parse_scenario_variables inp = Inr r"
  shows "sorted (season_list r) \<and> distinct (season_list r)
           \<and> set (season_list r) = {n. season_found_in inp n \<noteq> {}}"
    and "sorted (substrate_list r) \<and> distinct (substrate_list r)
           \<and> set (substrate_list r) = {n. substrate_found_in inp n \<noteq> {}}"
    and "sorted (species_list r) \<and> distinct (species_list r)
           \<and> set (species_list r) = fst ` set (guild_table inp)"
proof -
  from assms obtain maps where m: "header_maps inp = Inr maps"
    "build_result inp (fst maps) (snd maps) = Inr r"
    by (rule parse_success)
  have wr: "well_recorded inp maps" using m(1) by (rule header_maps_well_recorded)
  show "sorted (season_list r) \<and> distinct (season_list r)
           \<and> set (season_list r) = {n. season_found_in inp n \<noteq> {}}"
    using build_result_fields(1) [OF m(2)] wr
    by (simp add: sorted_keys_props well_recorded_def)
  show "sorted (substrate_list r) \<and> distinct (substrate_list r)
           \<and> set (substrate_list r) = {n. substrate_found_in inp n \<noteq> {}}"
    using build_result_fields(2) [OF m(2)] wr
    by (simp add: sorted_keys_props well_recorded_def)
  show "sorted (species_list r) \<and> distinct (species_list r)
           \<and> set (species_list r) = fst ` set (guild_table inp)"
    using build_result_fields(3) [OF m(2)]
    by (simp add: sorted_keys_props)
qed

lemma sorted_distinct_unique:
  "sorted xs \<and> distinct xs \<and> set xs = A \<Longrightarrow> sorted ys \<and> distinct ys \<and> set ys = A
     \<Longrightarrow> xs = (ys :: string list)"
  using sorted_distinct_set_unique [of xs ys] by simp

lemma discovered_set:
  "set hs = set hs' \<Longrightarrow> discovered pat hs n = discovered pat hs' n"
  by (simp add: discovered_def list_ex_iff)

lemma found_in_reordered:
  assumes "set (headers_or_none (guild_headers_of i1)) = set (headers_or_none (guild_headers_of i2))"
    and "set (headers_or_none (biophysical_headers_of i1))
           = set (headers_or_none (biophysical_headers_of i2))"
    and "farm i1 = None" "farm i2 = None"
  shows "season_found_in i1 n = season_found_in i2 n"
    and "substrate_found_in i1 n = substrate_found_in i2 n"
  using assms discovered_set [OF assms(1)] discovered_set [OF assms(2)]
  by (simp_all add: season_found_in_def substrate_found_in_def found_in_def)

text \<open>
  Claim C9. The season, substrate and species lists of a parsed scenario are sorted;
  a second scenario with the same names (a season or substrate is discovered in some
  table of one exactly when it is in some table of the other, and the guild tables
  have the same species), whatever the order of its columns and rows, yields the
  same three lists.
\<close>

theorem name_lists_sorted_and_determined:
  assumes "parse_scenario_variables inp = Inr r"
  shows "sorted (season_list r) \<and> sorted (substrate_list r) \<and> sorted (species_list r)
       \<and> (parse_scenario_variables inp2 = Inr r2
            \<and> (\<forall>n. (season_found_in inp2 n = {}) = (season_found_in inp n = {}))
            \<and> (\<forall>n. (substrate_found_in inp2 n = {}) = (substrate_found_in inp n = {}))
            \<and> fst ` set (guild_table inp2) = fst ` set (guild_table inp)
          \<longrightarrow> season_list r2 = season_list r \<and> substrate_list r2 = substrate_list r
              \<and> species_list r2 = species_list r)"
proof -
  note l1 = parse_lists [OF assms]
  have "season_list r2 = season_list r \<and> substrate_list r2 = substrate_list r
              \<and> species_list r2 = species_list r"
    if p2: "parse_scenario_variables inp2 = Inr r2"
      and s: "\<forall>n. (season_found_in inp2 n = {}) = (season_found_in inp n = {})"
      and b: "\<forall>n. (substrate_found_in inp2 n = {}) = (substrate_found_in inp n = {})"
      and g: "fst ` set (guild_table inp2) = fst ` set (guild_table inp)"
  proof -
    note l2 = parse_lists [OF p2]
    have "{n. season_found_in inp2 n \<noteq> {}} = {n. season_found_in inp n \<noteq> {}}"
      using s by simp
    then have "season_list r2 = season_list r"
      using l1(1) l2(1) by (intro sorted_distinct_unique) simp_all
    moreover have "{n. substrate_found_in inp2 n \<noteq> {}} = {n. substrate_found_in inp n \<noteq> {}}"
      using b by simp
    then have "substrate_list r2 = substrate_list r"
      using l1(2) l2(2) by (intro sorted_distinct_unique) simp_all
    moreover have "species_list r2 = species_list r"
      using l1(3) l2(3) g by (intro sorted_distinct_unique) simp_all
    ultimately show ?thesis by simp
  qed
  then show ?thesis using l1 by blast
qed

theorem name_lists_sorted_and_determined_witness:
  "parse_scenario_variables (scenario_of guild_two) = Inr two_species
   \<and> parse_scenario_variables (scenario_of guild_two_reordered) = Inr two_species
   \<and> sorted (season_list two_species) \<and> sorted (substrate_list two_species)
   \<and> sorted (species_list two_species)"
proof -
  let ?a = "scenario_of guild_two" and ?b = "scenario_of guild_two_reordered"
  have pa: "parse_scenario_variables ?a = Inr two_species" by (rule parse_guild_two)
  have pb: "parse_scenario_variables ?b = Inr two_species" by code_simp
  have g: "set (headers_or_none (guild_headers_of ?b)) = set (headers_or_none (guild_headers_of ?a))"
    by code_simp
  have h: "set (headers_or_none (biophysical_headers_of ?b))
      = set (headers_or_none (biophysical_headers_of ?a))"
    by (simp add: biophysical_headers_of_def scenario_of_def)
  have f: "farm ?b = None" "farm ?a = None" by (simp_all add: scenario_of_def)
  have s: "\<forall>n. (season_found_in ?b n = {}) = (season_found_in ?a n = {})"
    using found_in_reordered(1) [OF g h f] by simp
  have b: "\<forall>n. (substrate_found_in ?b n = {}) = (substrate_found_in ?a n = {})"
    using found_in_reordered(2) [OF g h f] by simp
  have k: "fst ` set (guild_table ?b) = fst ` set (guild_table ?a)"
    by (auto simp: scenario_of_def guild_two_def guild_two_reordered_def)
  from name_lists_sorted_and_determined [OF pa, of ?b two_species] pb s b k pa
  show ?thesis by blast
qed

section \<open>Normalised weights\<close>

lemma map_err_Inr:
  "map_err f xs = Inr ys \<Longrightarrow> list_all2 (\<lambda>x y. f x = Inr y) xs ys"
proof (induction xs arbitrary: ys)
  case Nil
  then show ?case by simp
next
  case (Cons x xs)
  then show ?case by (auto split: sum.splits)
qed

lemma map_err_length: "map_err f xs = Inr ys \<Longrightarrow> length ys = length xs"
  using map_err_Inr [of f xs ys] by (simp add: list_all2_lengthD)

lemma relative_abundances_length:
  "relative_abundances guild species = Inr values \<Longrightarrow> length values = length species"
  unfolding relative_abundances_def bind_err_Inr
  by (auto dest!: map_err_length)

lemma foraging_activities_length:
  "foraging_activities guild seasons sp = Inr values \<Longrightarrow> length values = length seasons"
  unfolding foraging_activities_def bind_err_Inr
  by (auto dest!: map_err_length)

lemma the_weights_zip:
  assumes "distinct ks" "length ws = length ks"
  shows "the_weights (zip ks ws) ks = ws"
proof (rule nth_equalityI)
  show "length (the_weights (zip ks ws) ks) = length ws"
    using assms by (simp add: the_weights_def)
next
  fix i assume "i < length (the_weights (zip ks ws) ks)"
  then have i: "i < length ks" by (simp add: the_weights_def)
  then have "map_of (zip ks ws) (ks ! i) = Some (ws ! i)"
    using assms by (simp add: map_of_zip_nth)
  then show "the_weights (zip ks ws) ks ! i = ws ! i"
    using i by (simp add: the_weights_def)
qed

lemma weights_sum_normalised:
  assumes "sum_list values \<noteq> 0"
  shows "weights_sum (map (\<lambda>v. np_true_divide v (sum_list values)) values) = Some 1"
proof -
  let ?t = "sum_list values"
  have m: "map (\<lambda>v. np_true_divide v ?t) values = map (\<lambda>v. Finite (v / ?t)) values"
    using assms by (simp add: np_true_divide_def)
  have "(\<Sum>v \<leftarrow> values. v / ?t) = (\<Sum>v \<leftarrow> values. v * inverse ?t)"
    by (simp add: divide_inverse)
  also have "\<dots> = ?t * inverse ?t" by (simp add: sum_list_mult_const)
  also have "\<dots> = 1" using assms by simp
  finally have "(\<Sum>v \<leftarrow> values. v / ?t) = 1" .
  then show ?thesis
    unfolding m weights_sum_def by (auto simp: comp_def)
qed

lemma map2_as_zip: "map2 (\<lambda>k v. (k, g v)) ks vs = zip ks (map g vs)"
  by (induction ks arbitrary: vs) (auto simp: zip_Cons1 split: list.splits)

lemma species_abundance_weights:
  assumes "species_abundances guild species = Inr ab" "distinct species"
  shows "\<exists>values. relative_abundances guild species = Inr values
           \<and> the_weights ab species = map (\<lambda>v. np_true_divide v (sum_list values)) values"
proof -
  from assms(1) obtain vals where v: "relative_abundances guild species = Inr vals"
    "ab = map2 (\<lambda>sp v. (sp, np_true_divide v (sum_list vals))) species vals"
    unfolding species_abundances_def bind_err_Inr Let_def by auto
  have "length vals = length species" using v(1) by (rule relative_abundances_length)
  then have "the_weights ab species = map (\<lambda>v. np_true_divide v (sum_list vals)) vals"
    unfolding v(2) map2_as_zip using assms(2) by (simp add: the_weights_zip)
  then show ?thesis using v(1) by blast
qed

lemma map2_pair_zip:
  "map2 (\<lambda>season v. ((sp, season), g v)) seasons vs = zip (map (Pair sp) seasons) (map g vs)"
  by (induction seasons arbitrary: vs) (auto simp: zip_Cons1 split: list.splits)

lemma species_foraging_chunks:
  assumes "species_foraging_activities guild seasons species = Inr act"
  shows "\<exists>chunks. act = concat chunks
           \<and> list_all2 (activity_chunk guild seasons) species chunks"
proof -
  from assms obtain chunks where c: "act = concat chunks"
    "map_err (\<lambda>sp. bind_err (foraging_activities guild seasons sp) (\<lambda>values.
                   let total_activity = sum_list values
                   in Inr (map2 (\<lambda>season v. ((sp, season), np_true_divide v total_activity))
                             seasons values))) species = Inr chunks"
    unfolding species_foraging_activities_def bind_err_Inr by auto
  have "list_all2 (activity_chunk guild seasons) species chunks"
    using map_err_Inr [OF c(2)]
    by (rule list_all2_mono) (auto simp: activity_chunk_def bind_err_Inr Let_def map2_pair_zip)
  then show ?thesis using c(1) by blast
qed

lemma chunk_keys:
  "activity_chunk guild seasons sp chunk \<Longrightarrow> k \<in> fst ` set chunk \<Longrightarrow> fst k = sp"
  by (auto simp: activity_chunk_def dest!: set_zip_leftD)

lemma concat_keys:
  assumes "list_all2 (activity_chunk guild seasons) xs cs" "k \<in> fst ` set (concat cs)"
  shows "fst k \<in> set xs"
  using assms
proof (induction rule: list_all2_induct)
  case Nil
  then show ?case by simp
next
  case (Cons x xs c cs)
  then show ?case using chunk_keys [of guild seasons x c k] by auto
qed

lemma map_of_concat_chunk:
  assumes "list_all2 (activity_chunk guild seasons) xs cs" "distinct xs"
    "(x, c) \<in> set (zip xs cs)"
  shows "map_of (concat cs) (x, b) = map_of c (x, b)"
  using assms
proof (induction rule: list_all2_induct)
  case Nil
  then show ?case by simp
next
  case (Cons x' xs c' cs)
  show ?case
  proof (cases "(x, c) = (x', c')")
    case True
    have "(x, b) \<notin> fst ` set (concat cs)"
      using concat_keys [OF Cons.hyps(2), of "(x, b)"] Cons.prems(1) True by auto
    then have "map_of (concat cs) (x, b) = None" by (simp add: map_of_eq_None_iff)
    then show ?thesis using True by (simp add: map_add_def split: option.splits)
  next
    case False
    then have in_rest: "(x, c) \<in> set (zip xs cs)" using Cons.prems(2) by auto
    then have "x \<in> set xs" by (rule set_zip_leftD)
    then have "x \<noteq> x'" using Cons.prems(1) by auto
    then have "(x, b) \<notin> fst ` set c'"
      using chunk_keys [OF Cons.hyps(1), of "(x, b)"] by auto
    then have "map_of c' (x, b) = None" by (simp add: map_of_eq_None_iff)
    moreover have "map_of (concat cs) (x, b) = map_of c (x, b)"
      using Cons.IH Cons.prems(1) in_rest by simp
    ultimately show ?thesis by (simp add: map_add_def)
  qed
qed

lemma species_foraging_weights:
  assumes "species_foraging_activities guild seasons species = Inr act"
    and "distinct species" "distinct seasons" "sp \<in> set species"
  shows "\<exists>vs. foraging_activities guild seasons sp = Inr vs
           \<and> the_weights act (map (Pair sp) seasons)
               = map (\<lambda>v. np_true_divide v (sum_list vs)) vs"
proof -
  from species_foraging_chunks [OF assms(1)] obtain chunks where
    c: "act = concat chunks" "list_all2 (activity_chunk guild seasons) species chunks"
    by blast
  have len: "length chunks = length species" using c(2) by (simp add: list_all2_lengthD)
  from assms(4) obtain i where i: "i < length species" "species ! i = sp"
    by (auto simp: in_set_conv_nth)
  define chunk where "chunk = chunks ! i"
  have mem: "(sp, chunk) \<in> set (zip species chunks)"
    using i len unfolding chunk_def by (auto simp: set_zip)
  have ac: "activity_chunk guild seasons sp chunk"
    using c(2) i unfolding chunk_def by (auto simp: list_all2_conv_all_nth)
  then obtain vs where vs: "foraging_activities guild seasons sp = Inr vs"
    "chunk = zip (map (Pair sp) seasons) (map (\<lambda>v. np_true_divide v (sum_list vs)) vs)"
    unfolding activity_chunk_def by blast
  have lv: "length vs = length seasons" using vs(1) by (rule foraging_activities_length)
  have "the_weights act (map (Pair sp) seasons) = the_weights chunk (map (Pair sp) seasons)"
    unfolding the_weights_def c(1)
    using map_of_concat_chunk [OF c(2) assms(2) mem] by simp
  also have "\<dots> = map (\<lambda>v. np_true_divide v (sum_list vs)) vs"
    unfolding vs(2) using assms(3) lv
    by (intro the_weights_zip) (simp_all add: distinct_map inj_on_def)
  finally show ?thesis using vs(1) by blast
qed

text \<open>
  Claim C6, as stated, fails when a total is zero: parsing succeeds, the division by
  the numpy total gives \<open>nan\<close>, and the weights do not sum to one. Here the species
  has foraging activity \<open>0\<close> in both seasons.
\<close>

theorem weights_not_normalised_counterexample:
  "\<not> isl (parse_scenario_variables (scenario_of guild_idle))
   \<and> the_weights
        (species_foraging_activity (projr (parse_scenario_variables (scenario_of guild_idle))))
        [(''bombus'', ''spring''), (''bombus'', ''summer'')] = [NonFinite, NonFinite]
   \<and> weights_sum [NonFinite, NonFinite] = None"
  by code_simp

text \<open>
  Claim C6, amended. After parsing succeeds every relative-abundance weight is the
  raw value over the total across species, and every foraging-activity weight the raw
  value over the species' total across seasons; where the total is not zero the
  weights sum to one within \<open>1e-6\<close>. The quotients of the model are exact, which
  makes the sum exactly one; the tolerance is the one of the claim.
\<close>

theorem weights_normalised:
  assumes "parse_scenario_variables inp = Inr r"
  shows "(\<exists>vs. relative_abundances (guild_table inp) (species_list r) = Inr vs
            \<and> the_weights (species_abundance r) (species_list r)
                = map (\<lambda>v. np_true_divide v (sum_list vs)) vs
            \<and> (sum_list vs \<noteq> 0 \<longrightarrow>
                 (\<exists>s. weights_sum (the_weights (species_abundance r) (species_list r)) = Some s
                      \<and> \<bar>s - 1\<bar> \<le> 1 / 1000000)))
       \<and> (\<forall>sp \<in> set (species_list r).
            \<exists>vs. foraging_activities (guild_table inp) (season_list r) sp = Inr vs
              \<and> the_weights (species_foraging_activity r) (map (Pair sp) (season_list r))
                  = map (\<lambda>v. np_true_divide v (sum_list vs)) vs
              \<and> (sum_list vs \<noteq> 0 \<longrightarrow>
                   (\<exists>s. weights_sum (the_weights (species_foraging_activity r)
                                      (map (Pair sp) (season_list r))) = Some s
                        \<and> \<bar>s - 1\<bar> \<le> 1 / 1000000)))"
proof -
  from assms obtain maps where m: "header_maps inp = Inr maps"
    "build_result inp (fst maps) (snd maps) = Inr r"
    by (rule parse_success)
  note f = build_result_fields [OF m(2)]
  note l = parse_lists [OF assms]
  have d: "distinct (species_list r)" "distinct (season_list r)" using l by simp_all
  from species_abundance_weights [OF f(4) d(1)] obtain vs where
    vs: "relative_abundances (guild_table inp) (species_list r) = Inr vs"
      "the_weights (species_abundance r) (species_list r)
         = map (\<lambda>v. np_true_divide v (sum_list vs)) vs"
    by blast
  have first: "\<exists>vs. relative_abundances (guild_table inp) (species_list r) = Inr vs
            \<and> the_weights (species_abundance r) (species_list r)
                = map (\<lambda>v. np_true_divide v (sum_list vs)) vs
            \<and> (sum_list vs \<noteq> 0 \<longrightarrow>
                 (\<exists>s. weights_sum (the_weights (species_abundance r) (species_list r)) = Some s
                      \<and> \<bar>s - 1\<bar> \<le> 1 / 1000000))"
    using vs weights_sum_normalised [of vs] by auto
  have second: "\<exists>vs. foraging_activities (guild_table inp) (season_list r) sp = Inr vs
              \<and> the_weights (species_foraging_activity r) (map (Pair sp) (season_list r))
                  = map (\<lambda>v. np_true_divide v (sum_list vs)) vs
              \<and> (sum_list vs \<noteq> 0 \<longrightarrow>
                   (\<exists>s. weights_sum (the_weights (species_foraging_activity r)
                                      (map (Pair sp) (season_list r))) = Some s
                        \<and> \<bar>s - 1\<bar> \<le> 1 / 1000000))"
    if "sp \<in> set (species_list r)" for sp
  proof -
    from species_foraging_weights [OF f(5) d that] obtain ws where
      ws: "foraging_activities (guild_table inp) (season_list r) sp = Inr ws"
        "the_weights (species_foraging_activity r) (map (Pair sp) (season_list r))
           = map (\<lambda>v. np_true_divide v (sum_list ws)) ws"
      by blast
    then show ?thesis using weights_sum_normalised [of ws] by auto
  qed
  show ?thesis using first second by blast
qed

theorem weights_normalised_witness:
  "(\<exists>s. weights_sum (the_weights (species_abundance two_species) (species_list two_species))
          = Some s \<and> \<bar>s - 1\<bar> \<le> 1 / 1000000)
   \<and> (\<exists>s. weights_sum (the_weights (species_foraging_activity two_species)
                         (map (Pair ''bombus'') (season_list two_species))) = Some s
          \<and> \<bar>s - 1\<bar> \<le> 1 / 1000000)"
proof -
  have pa: "parse_scenario_variables (scenario_of guild_two) = Inr two_species"
    by (rule parse_guild_two)
  note inst = weights_normalised [OF pa]
  have ra: "relative_abundances (guild_table (scenario_of guild_two)) (species_list two_species)
      = Inr [3, 1]"
    by code_simp
  have fa: "foraging_activities (guild_table (scenario_of guild_two)) (season_list two_species)
      ''bombus'' = Inr [3, 1]"
    by code_simp
  have mem: "''bombus'' \<in> set (species_list two_species)"
    by (simp add: two_species_def)
  from inst [THEN conjunct1] ra
  have "sum_list [3, 1 :: real] \<noteq> 0 \<longrightarrow>
      (\<exists>s. weights_sum (the_weights (species_abundance two_species) (species_list two_species))
          = Some s \<and> \<bar>s - 1\<bar> \<le> 1 / 1000000)"
    by auto
  moreover from inst [THEN conjunct2, rule_format, OF mem] fa
  have "sum_list [3, 1 :: real] \<noteq> 0 \<longrightarrow>
      (\<exists>s. weights_sum (the_weights (species_foraging_activity two_species)
                       (map (Pair ''bombus'') (season_list two_species))) = Some s
          \<and> \<bar>s - 1\<bar> \<le> 1 / 1000000)"
    by auto
  ultimately show ?thesis by simp
qed

end
